theory Spec2Isabelle
  imports Main "HOL-Library.Word" "HOL-Library.Sublist"
begin

unbundle bit_operations_syntax

section \<open>C strings\<close>

text \<open>
  A \<open>const char*\<close> argument is a \<^typ>\<open>string option\<close>: \<open>None\<close> is the null pointer and
  \<open>Some s\<close> points at the bytes \<open>s\<close>, which are followed by the terminating NUL.  Reading
  index \<open>i\<close> of the pointed-to memory gives the \<open>i\<close>-th byte, and the terminator at the
  end; the source never reads past the first NUL it meets.
\<close>

definition c_at :: "string \<Rightarrow> nat \<Rightarrow> char" where
  "c_at s i = (if i < length s then s ! i else CHR 0x00)"

definition is_ascii_letter :: "char \<Rightarrow> bool" where
  "is_ascii_letter c =
     ((of_char (CHR ''A'') \<le> (of_char c :: nat) \<and> (of_char c :: nat) \<le> of_char (CHR ''Z'')) \<or>
      (of_char (CHR ''a'') \<le> (of_char c :: nat) \<and> (of_char c :: nat) \<le> of_char (CHR ''z'')))"

section \<open>Path safety (QoreTarFile.cpp, isPathSafe)\<close>

text \<open>
  The \<open>while (*p)\<close> loop of \<open>isPathSafe\<close>, with the pointer \<open>p\<close> as the index \<open>p\<close> into
  \<open>path\<close>.  \<open>p[-1]\<close> is read only when \<open>p \<noteq> path\<close>; the backslash is \<open>CHR 0x5C\<close>.
\<close>

function path_scan :: "string \<Rightarrow> nat \<Rightarrow> bool" where
  "path_scan path p =
     (if c_at path p = CHR 0x00 then True
      else if c_at path p = CHR ''.'' \<and> c_at path (p + 1) = CHR ''.'' \<and>
              (p = 0 \<or> c_at path (p - 1) = CHR ''/'' \<or> c_at path (p - 1) = CHR 0x5C) \<and>
              (c_at path (p + 2) = CHR 0x00 \<or> c_at path (p + 2) = CHR ''/'' \<or>
               c_at path (p + 2) = CHR 0x5C)
           then False
      else path_scan path (p + 1))"
  by pat_completeness auto
termination
  by (relation "measure (\<lambda>(path, p). length path - p)") (auto simp: c_at_def split: if_splits)

declare path_scan.simps [simp del]

definition isPathSafe :: "string option \<Rightarrow> bool" where
  "isPathSafe path =
     (case path of
        None \<Rightarrow> True
      | Some s \<Rightarrow>
          if c_at s 0 = CHR 0x00 then True
          else if c_at s 0 = CHR ''/'' then False
          else if is_ascii_letter (c_at s 0) \<and> c_at s 1 = CHR '':'' then False
          else path_scan s 0)"

text \<open>
  The condition under which the loop returns \<open>false\<close> at index \<open>p\<close>: a \<open>..\<close> at \<open>p\<close>,
  preceded by the start of the string or a separator and followed by the terminator or a
  separator.
\<close>

definition dotdot_at :: "string \<Rightarrow> nat \<Rightarrow> bool" where
  "dotdot_at path p \<longleftrightarrow>
     c_at path p = CHR ''.'' \<and> c_at path (p + 1) = CHR ''.'' \<and>
     (p = 0 \<or> c_at path (p - 1) = CHR ''/'' \<or> c_at path (p - 1) = CHR 0x5C) \<and>
     (c_at path (p + 2) = CHR 0x00 \<or> c_at path (p + 2) = CHR ''/'' \<or>
      c_at path (p + 2) = CHR 0x5C)"

section \<open>Compression detection (tar-module.cpp, detect_compression_from_filename)\<close>

text \<open>
  \<open>c_str s\<close> is the C string that the memory \<open>s\<close> denotes: the bytes before the first NUL.
  \<open>strlen\<close> and \<open>strcmp\<close> see nothing else; \<open>filename + k\<close> is \<open>drop k filename\<close>.
\<close>

definition c_str :: "string \<Rightarrow> string" where
  "c_str s = takeWhile (\<lambda>c. c \<noteq> CHR 0x00) s"

definition strlen :: "string \<Rightarrow> nat" where
  "strlen s = length (c_str s)"

definition strcmp_eq :: "string \<Rightarrow> string \<Rightarrow> bool" where
  "strcmp_eq a b = (c_str a = c_str b)"

text \<open>The compression method constants \<open>TAR_CM_*\<close> of \<open>tar-module.h\<close>, by name.\<close>

datatype tar_cm = TAR_CM_NONE | TAR_CM_GZIP | TAR_CM_BZIP2 | TAR_CM_XZ | TAR_CM_ZSTD | TAR_CM_LZ4

definition detect_compression_from_filename :: "string option \<Rightarrow> tar_cm" where
  "detect_compression_from_filename filename =
     (case filename of
        None \<Rightarrow> TAR_CM_NONE
      | Some f \<Rightarrow>
          (let len = strlen f in
           if len < 4 then TAR_CM_NONE
           else if len \<ge> 7 \<and> strcmp_eq (drop (len - 7) f) ''.tar.gz'' then TAR_CM_GZIP
           else if len \<ge> 4 \<and> strcmp_eq (drop (len - 4) f) ''.tgz'' then TAR_CM_GZIP
           else if len \<ge> 8 \<and> strcmp_eq (drop (len - 8) f) ''.tar.bz2'' then TAR_CM_BZIP2
           else if len \<ge> 5 \<and> strcmp_eq (drop (len - 5) f) ''.tbz2'' then TAR_CM_BZIP2
           else if len \<ge> 4 \<and> strcmp_eq (drop (len - 4) f) ''.tbz'' then TAR_CM_BZIP2
           else if len \<ge> 7 \<and> strcmp_eq (drop (len - 7) f) ''.tar.xz'' then TAR_CM_XZ
           else if len \<ge> 4 \<and> strcmp_eq (drop (len - 4) f) ''.txz'' then TAR_CM_XZ
           else if len \<ge> 8 \<and> strcmp_eq (drop (len - 8) f) ''.tar.zst'' then TAR_CM_ZSTD
           else if len \<ge> 9 \<and> strcmp_eq (drop (len - 9) f) ''.tar.zstd'' then TAR_CM_ZSTD
           else if len \<ge> 8 \<and> strcmp_eq (drop (len - 8) f) ''.tar.lz4'' then TAR_CM_LZ4
           else if len \<ge> 4 \<and> strcmp_eq (drop (len - 4) f) ''.tar'' then TAR_CM_NONE
           else TAR_CM_NONE))"

text \<open>
  The suffix table as the specification words it, to be compared with the function above:
  a name ending in one of the listed suffixes maps to that suffix's method, every other
  name to no compression.
\<close>

definition has_suffix :: "string \<Rightarrow> string \<Rightarrow> bool" where
  "has_suffix suf name = (length suf \<le> length name \<and> drop (length name - length suf) name = suf)"

definition detect_by_suffix_table :: "string \<Rightarrow> tar_cm" where
  "detect_by_suffix_table name =
     (if has_suffix ''.tar.gz'' name \<or> has_suffix ''.tgz'' name then TAR_CM_GZIP
      else if has_suffix ''.tar.bz2'' name \<or> has_suffix ''.tbz2'' name \<or> has_suffix ''.tbz'' name
        then TAR_CM_BZIP2
      else if has_suffix ''.tar.xz'' name \<or> has_suffix ''.txz'' name then TAR_CM_XZ
      else if has_suffix ''.tar.zst'' name \<or> has_suffix ''.tar.zstd'' name then TAR_CM_ZSTD
      else if has_suffix ''.tar.lz4'' name then TAR_CM_LZ4
      else TAR_CM_NONE)"

text \<open>Two suffixes that cannot both end one name: the shorter does not end the longer.\<close>

definition suffix_clash :: "string \<Rightarrow> string \<Rightarrow> bool" where
  "suffix_clash a b = (if length a \<le> length b then \<not> has_suffix a b else \<not> has_suffix b a)"

section \<open>Archive entries and the metadata record (QoreTarFile.cpp, createEntryInfo)\<close>

text \<open>
  An \<open>archive_entry\<close> of the format provider, by what its accessor functions return:
  a string accessor returns a null pointer (\<open>None\<close>) when the field is unset, a time stamp
  is set or unset.  The pathname accessor is taken to return a string.  \<open>ae_filetype\<close> is
  the file type part of the mode (\<open>archive_entry_filetype\<close>), \<open>ae_perm\<close> the permission
  bits, and \<open>archive_entry_mode\<close> the two together.
\<close>

type_synonym byte = "8 word"

record archive_entry =
  ae_pathname :: string
  ae_size :: int
  ae_filetype :: int
  ae_perm :: int
  ae_mtime :: "int option"
  ae_atime :: "int option"
  ae_ctime :: "int option"
  ae_uid :: int
  ae_gid :: int
  ae_uname :: "string option"
  ae_gname :: "string option"
  ae_hardlink :: "string option"
  ae_symlink :: "string option"
  ae_devmajor :: int
  ae_devminor :: int

definition archive_entry_mode :: "archive_entry \<Rightarrow> int" where
  "archive_entry_mode e = ae_filetype e + ae_perm e"

text \<open>The file type constants of the provider's header \<open>archive_entry.h\<close> (octal there).\<close>

definition AE_IFREG :: int where "AE_IFREG = 32768"
definition AE_IFLNK :: int where "AE_IFLNK = 40960"
definition AE_IFSOCK :: int where "AE_IFSOCK = 49152"
definition AE_IFCHR :: int where "AE_IFCHR = 8192"
definition AE_IFBLK :: int where "AE_IFBLK = 24576"
definition AE_IFDIR :: int where "AE_IFDIR = 16384"
definition AE_IFIFO :: int where "AE_IFIFO = 4096"

text \<open>
  \<open>archive_entry_set_perm\<close> keeps, of the mode it is given, the bits outside the file type
  mask \<open>AE_IFMT\<close> (\<open>~AE_IFMT & p\<close>, the argument converted to the unsigned 32-bit \<open>mode_t\<close>).
\<close>

definition AE_IFMT :: int where "AE_IFMT = 61440"

definition perm_bits :: "int \<Rightarrow> int" where
  "perm_bits p = (p mod 4294967296) AND NOT AE_IFMT"

text \<open>
  The \<open>TarEntryInfo\<close> hash: a key that is not set is \<open>None\<close>.  Time stamps are kept as the
  epoch seconds handed to \<open>DateTimeNode::makeAbsolute\<close>.
\<close>

record TarEntryInfo =
  i_name :: string
  i_size :: int
  i_modified :: "int option"
  i_accessed :: "int option"
  i_created :: "int option"
  i_mode :: int
  i_uid :: int
  i_gid :: int
  i_uname :: "string option"
  i_gname :: "string option"
  i_type :: string
  i_link_target :: "string option"
  i_is_directory :: bool
  i_is_symlink :: bool
  i_is_hardlink :: bool
  i_devmajor :: "int option"
  i_devminor :: "int option"

text \<open>The \<open>switch (filetype)\<close> of \<open>createEntryInfo\<close>.\<close>

definition filetype_str :: "int \<Rightarrow> string" where
  "filetype_str filetype =
     (if filetype = AE_IFREG then ''file''
      else if filetype = AE_IFDIR then ''directory''
      else if filetype = AE_IFLNK then ''symlink''
      else if filetype = AE_IFCHR then ''chardev''
      else if filetype = AE_IFBLK then ''blockdev''
      else if filetype = AE_IFIFO then ''fifo''
      else if filetype = AE_IFSOCK then ''socket''
      else ''unknown'')"

text \<open>\<open>hardlink_target && *hardlink_target\<close>: the pointer is not null and the string not empty.\<close>

definition nonempty_target :: "string option \<Rightarrow> bool" where
  "nonempty_target t = (case t of None \<Rightarrow> False | Some s \<Rightarrow> c_at s 0 \<noteq> CHR 0x00)"

definition createEntryInfo :: "archive_entry \<Rightarrow> TarEntryInfo" where
  "createEntryInfo entry =
     (let filetype = ae_filetype entry;
          hardlink_target = ae_hardlink entry;
          type_str = (if nonempty_target hardlink_target then ''hardlink''
                      else filetype_str filetype);
          link = (case ae_symlink entry of None \<Rightarrow> ae_hardlink entry | Some l \<Rightarrow> Some l);
          dev = (filetype = AE_IFCHR \<or> filetype = AE_IFBLK)
      in \<lparr> i_name = ae_pathname entry,
           i_size = ae_size entry,
           i_modified = ae_mtime entry,
           i_accessed = ae_atime entry,
           i_created = ae_ctime entry,
           i_mode = archive_entry_mode entry,
           i_uid = ae_uid entry,
           i_gid = ae_gid entry,
           i_uname = ae_uname entry,
           i_gname = ae_gname entry,
           i_type = type_str,
           i_link_target = link,
           i_is_directory = (filetype = AE_IFDIR),
           i_is_symlink = (filetype = AE_IFLNK),
           i_is_hardlink = (ae_hardlink entry \<noteq> None),
           i_devmajor = (if dev then Some (ae_devmajor entry) else None),
           i_devminor = (if dev then Some (ae_devminor entry) else None) \<rparr>)"

text \<open>An entry for a regular file without link targets, used to instantiate the results.\<close>

definition sample_entry :: archive_entry where
  "sample_entry = \<lparr> ae_pathname = ''a/link'', ae_size = 0, ae_filetype = AE_IFREG, ae_perm = 420,
     ae_mtime = Some 0, ae_atime = None, ae_ctime = None, ae_uid = 0, ae_gid = 0,
     ae_uname = None, ae_gname = None, ae_hardlink = None, ae_symlink = None,
     ae_devmajor = 0, ae_devminor = 0 \<rparr>"

section \<open>The format provider, as the adapters and the session use it\<close>

text \<open>
  The exception sink is the list of the exceptions raised during a call, oldest first;
  \<open>*xsink\<close> is true when the list is not empty.  An exception is its code and its message.
\<close>

type_synonym exn = "string \<times> string"

definition ARCHIVE_OK :: int where "ARCHIVE_OK = 0"
definition ARCHIVE_FATAL :: int where "ARCHIVE_FATAL = - 30"

subsection \<open>Read coder\<close>

text \<open>
  A member of an archive as the read coder delivers it: the header, the payload as
  \<open>archive_read_data\<close> hands it out, a diagnostic when reading the payload fails once the
  bytes of \<open>m_data\<close> have been handed out, and the payload as the offset-tagged blocks of
  \<open>archive_read_data_block\<close>.  The members of a read coder are those whose header
  \<open>archive_read_next_header\<close> returns with \<open>ARCHIVE_OK\<close>, up to the first other status;
  every loop of the session stops there.
\<close>

record arc_member =
  m_header :: archive_entry
  m_data :: "byte list"
  m_fault :: "string option"
  m_blocks :: "(int \<times> byte list) list"

record reader =
  r_pending :: "arc_member list"
  r_data :: "byte list"
  r_fault :: "string option"
  r_blocks :: "(int \<times> byte list) list"

definition reader_of :: "arc_member list \<Rightarrow> reader" where
  "reader_of ms = \<lparr> r_pending = ms, r_data = [], r_fault = None, r_blocks = [] \<rparr>"

text \<open>\<open>archive_read_next_header\<close>: \<open>None\<close> stands for every status other than \<open>ARCHIVE_OK\<close>.\<close>

definition archive_read_next_header :: "reader \<Rightarrow> archive_entry option \<times> reader" where
  "archive_read_next_header a =
     (case r_pending a of
        [] \<Rightarrow> (None, a\<lparr> r_data := [], r_fault := None, r_blocks := [] \<rparr>)
      | m # ms \<Rightarrow> (Some (m_header m),
                   \<lparr> r_pending = ms, r_data = m_data m, r_fault = m_fault m,
                     r_blocks = m_blocks m \<rparr>))"

text \<open>
  \<open>archive_read_data(a, buf, limit)\<close>: the return value, the bytes stored into \<open>buf\<close>, and
  the coder afterwards.  It fills the buffer as far as the payload reaches, returns 0 at
  the end of the payload and a negative status on failure.
\<close>

definition archive_read_data :: "reader \<Rightarrow> nat \<Rightarrow> int \<times> byte list \<times> reader" where
  "archive_read_data a limit =
     (if r_data a = [] then
        (case r_fault a of None \<Rightarrow> (0, [], a) | Some d \<Rightarrow> (ARCHIVE_FATAL, [], a))
      else (int (length (take limit (r_data a))), take limit (r_data a),
            a\<lparr> r_data := drop limit (r_data a) \<rparr>))"

definition archive_read_data_skip :: "reader \<Rightarrow> reader" where
  "archive_read_data_skip a = a\<lparr> r_data := [], r_fault := None, r_blocks := [] \<rparr>"

text \<open>\<open>get_archive_error\<close> on a read coder: its diagnostic, or \<open>unknown error\<close>.\<close>

definition get_read_error :: "reader \<Rightarrow> string" where
  "get_read_error a = (case r_fault a of None \<Rightarrow> ''unknown error'' | Some d \<Rightarrow> d)"

subsection \<open>Write coder\<close>

text \<open>
  A write coder is the sequence of the calls made on it and the bytes it has pushed to its
  backend through the write callback.  What a call returns, its diagnostic and the bytes
  it pushes are the provider's answer, which may depend on the calls made before.
\<close>

datatype wcall = WriteHeader archive_entry | WriteData "byte list" | WriteClose

record writer =
  w_calls :: "wcall list"
  w_pushed :: "byte list"

record wans =
  wa_ret :: int
  wa_err :: string
  wa_pushed :: "byte list"

subsection \<open>Disk writer, file system and the environment\<close>

text \<open>
  The calls made on the disk-materialising sink of \<open>extractAll\<close> and on the plain output
  file of \<open>extractTo\<close>; the values an operation returns carry them, in order.
\<close>

datatype dcall =
    DiskSetOptions int
  | DiskStandardLookup
  | DiskHeader archive_entry
  | DiskBlock int "byte list"
  | DiskFinishEntry
  | DiskClose

datatype fcall = FOpen string | FWrite "byte list" | FClose

text \<open>What a read coder is opened over: the arguments of \<open>archive_read_open_*\<close>.\<close>

datatype backing = OverMemory "byte list" | OverStream | OverFile string

text \<open>The fields of \<open>struct stat\<close> that \<open>archive_entry_copy_stat\<close> copies into a header.\<close>

record file_stat =
  st_filetype :: int
  st_perm :: int
  st_size :: int
  st_uid :: int
  st_gid :: int
  st_mtime :: int
  st_atime :: int
  st_ctime :: int

text \<open>
  The answers of the environment during one call of an operation: the provider's, the
  clock's and the file system's.  An answer may depend on the calls made before on the
  same handle.  \<open>p_read_open\<close> gives the diagnostic when opening fails, and otherwise the
  members that the read coder will deliver.
\<close>

record provider =
  p_now :: int
  p_entry_new :: bool
  p_write_header :: "wcall list \<Rightarrow> archive_entry \<Rightarrow> wans"
  p_write_data :: "wcall list \<Rightarrow> byte list \<Rightarrow> wans"
  p_write_close :: "wcall list \<Rightarrow> byte list"
  p_read_new :: bool
  p_read_open :: "backing \<Rightarrow> string + arc_member list"
  p_disk_new :: bool
  p_disk_header :: "dcall list \<Rightarrow> archive_entry \<Rightarrow> int \<times> string"
  p_disk_block :: "dcall list \<Rightarrow> int \<Rightarrow> byte list \<Rightarrow> int \<times> string"
  p_stat :: "string \<Rightarrow> string + file_stat"
  p_fopen_rb :: "string \<Rightarrow> string + byte list"
  p_fopen_wb :: "string \<Rightarrow> string option"
  p_fwrite :: "fcall list \<Rightarrow> byte list \<Rightarrow> nat"
  p_to_utf8 :: "byte list \<Rightarrow> exn + byte list"

definition archive_write_header :: "provider \<Rightarrow> writer \<Rightarrow> archive_entry \<Rightarrow> wans \<times> writer" where
  "archive_write_header P w e =
     (let ans = p_write_header P (w_calls w) e
      in (ans, \<lparr> w_calls = w_calls w @ [WriteHeader e],
                 w_pushed = w_pushed w @ wa_pushed ans \<rparr>))"

definition archive_write_data :: "provider \<Rightarrow> writer \<Rightarrow> byte list \<Rightarrow> wans \<times> writer" where
  "archive_write_data P w bs =
     (let ans = p_write_data P (w_calls w) bs
      in (ans, \<lparr> w_calls = w_calls w @ [WriteData bs],
                 w_pushed = w_pushed w @ wa_pushed ans \<rparr>))"

definition archive_write_close :: "provider \<Rightarrow> writer \<Rightarrow> writer" where
  "archive_write_close P w =
     \<lparr> w_calls = w_calls w @ [WriteClose],
       w_pushed = w_pushed w @ p_write_close P (w_calls w) \<rparr>"

text \<open>\<open>archive_entry_new\<close>: a cleared entry.\<close>

definition archive_entry_new :: archive_entry where
  "archive_entry_new =
     \<lparr> ae_pathname = [], ae_size = 0, ae_filetype = 0, ae_perm = 0, ae_mtime = None,
       ae_atime = None, ae_ctime = None, ae_uid = 0, ae_gid = 0, ae_uname = None,
       ae_gname = None, ae_hardlink = None, ae_symlink = None, ae_devmajor = 0,
       ae_devminor = 0 \<rparr>"

section \<open>Entry stream adapters\<close>

subsection \<open>Read adapter (TarInputStream.cpp)\<close>

record TarInputStream =
  is_archive :: reader
  is_entry :: archive_entry
  is_entry_size :: int
  is_bytes_read :: int
  is_closed :: bool
  is_peek_byte :: int
  is_has_peek :: bool

definition TarInputStream_new :: "reader \<Rightarrow> archive_entry \<Rightarrow> TarInputStream" where
  "TarInputStream_new a entry =
     \<lparr> is_archive = a, is_entry = entry, is_entry_size = ae_size entry, is_bytes_read = 0,
       is_closed = False, is_peek_byte = - 1, is_has_peek = False \<rparr>"

text \<open>
  \<open>read(ptr, limit)\<close> returns the stream, the exceptions raised, the return value and the
  bytes stored into the caller's buffer, in order.
\<close>

definition TarInputStream_read ::
    "TarInputStream \<Rightarrow> int \<Rightarrow> TarInputStream \<times> exn list \<times> int \<times> byte list" where
  "TarInputStream_read s limit =
     (if is_closed s then (s, [(''STREAM-CLOSED-ERROR'', ''stream is closed'')], - 1, [])
      else if is_bytes_read s \<ge> is_entry_size s then (s, [], 0, [])
      else
        (let use_peek = (is_has_peek s \<and> limit > 0);
             buf0 = (if use_peek then [word_of_int (is_peek_byte s)] else []);
             total_read = (if use_peek then 1 else 0);
             s1 = (if use_peek then s\<lparr> is_has_peek := False \<rparr> else s);
             limit1 = (if use_peek then limit - 1 else limit)
         in if limit1 > 0 then
              (case archive_read_data (is_archive s1) (nat limit1) of
                 (r, bytes, a') \<Rightarrow>
                   if r < 0 then
                     (s1\<lparr> is_archive := a' \<rparr>,
                      [(''TAR-READ-ERROR'', ''failed to read data: '' @ get_read_error a')],
                      - 1, buf0)
                   else
                     (s1\<lparr> is_archive := a', is_bytes_read := is_bytes_read s + (total_read + r) \<rparr>,
                      [], total_read + r, buf0 @ bytes))
            else (s1\<lparr> is_bytes_read := is_bytes_read s + total_read \<rparr>, [], total_read, buf0)))"

text \<open>\<open>peek()\<close> returns the stream, the exceptions raised and the return value.\<close>

definition TarInputStream_peek :: "TarInputStream \<Rightarrow> TarInputStream \<times> exn list \<times> int" where
  "TarInputStream_peek s =
     (if is_closed s then (s, [(''STREAM-CLOSED-ERROR'', ''stream is closed'')], - 1)
      else if is_has_peek s then (s, [], is_peek_byte s)
      else if is_bytes_read s \<ge> is_entry_size s then (s, [], - 1)
      else
        (case archive_read_data (is_archive s) 1 of
           (r, bytes, a') \<Rightarrow>
             if r < 0 then
               (s\<lparr> is_archive := a' \<rparr>,
                [(''TAR-READ-ERROR'', ''failed to peek data: '' @ get_read_error a')], - 1)
             else if r = 0 then (s\<lparr> is_archive := a' \<rparr>, [], - 1)
             else
               (case bytes of
                  [] \<Rightarrow> (s\<lparr> is_archive := a' \<rparr>, [], - 1)
                | b # _ \<Rightarrow>
                    (s\<lparr> is_archive := a', is_peek_byte := uint b, is_has_peek := True \<rparr>,
                     [], uint b))))"



subsection \<open>Write adapter (TarOutputStream.cpp)\<close>

record TarOutputStream =
  os_archive :: writer
  os_entry_name :: string
  os_mode :: int
  os_buffer :: "byte list"
  os_closed :: bool
  os_header_written :: bool

text \<open>The constructor copies the C string \<open>entry_name\<close> into a \<open>std::string\<close>.\<close>

definition TarOutputStream_new :: "writer \<Rightarrow> string \<Rightarrow> int \<Rightarrow> TarOutputStream" where
  "TarOutputStream_new a entry_name mode =
     \<lparr> os_archive = a, os_entry_name = c_str entry_name, os_mode = mode, os_buffer = [],
       os_closed = False, os_header_written = False \<rparr>"

text \<open>
  \<open>write(ptr, count)\<close>: \<open>ptr\<close> is the caller's memory, of which \<open>memcpy\<close> copies the first
  \<open>count\<close> bytes; the caller provides at least \<open>count\<close> bytes.
\<close>

definition TarOutputStream_write ::
    "TarOutputStream \<Rightarrow> byte list \<Rightarrow> int \<Rightarrow> TarOutputStream \<times> exn list" where
  "TarOutputStream_write s ptr count =
     (if os_closed s then (s, [(''STREAM-CLOSED-ERROR'', ''stream is closed'')])
      else if count \<le> 0 then (s, [])
      else (s\<lparr> os_buffer := os_buffer s @ take (nat count) ptr \<rparr>, []))"

definition TarOutputStream_close ::
    "provider \<Rightarrow> TarOutputStream \<Rightarrow> TarOutputStream \<times> exn list" where
  "TarOutputStream_close P s =
     (if os_closed s then (s, [])
      else
        (let s1 = s\<lparr> os_closed := True \<rparr> in
         if \<not> p_entry_new P then (s1, [(''TAR-ERROR'', ''failed to create archive entry'')])
         else
           (let entry = archive_entry_new
                  \<lparr> ae_pathname := c_str (os_entry_name s1),
                    ae_size := int (length (os_buffer s1)),
                    ae_filetype := AE_IFREG,
                    ae_perm := perm_bits (os_mode s1),
                    ae_mtime := Some (p_now P) \<rparr>;
                (ans, a1) = archive_write_header P (os_archive s1) entry
            in if wa_ret ans \<noteq> ARCHIVE_OK then
                 (s1\<lparr> os_archive := a1 \<rparr>,
                  [(''TAR-ERROR'', ''failed to write entry header: '' @ wa_err ans)])
               else if os_buffer s1 \<noteq> [] then
                 (let (ans2, a2) = archive_write_data P a1 (os_buffer s1)
                  in (s1\<lparr> os_archive := a2, os_buffer := [] \<rparr>,
                      (if wa_ret ans2 < 0 \<or> wa_ret ans2 \<noteq> int (length (os_buffer s1))
                       then [(''TAR-ERROR'', ''failed to write entry data: '' @ wa_err ans2)]
                       else [])))
               else (s1\<lparr> os_archive := a1, os_buffer := [] \<rparr>, []))))"

text \<open>A sequence of \<open>write\<close> calls, each given as the caller's memory and the count.\<close>

fun write_all :: "TarOutputStream \<Rightarrow> (byte list \<times> int) list \<Rightarrow> TarOutputStream \<times> exn list" where
  "write_all s [] = (s, [])"
| "write_all s ((ptr, count) # ws) =
     (let (s1, x1) = TarOutputStream_write s ptr count;
          (s2, x2) = write_all s1 ws
      in (s2, x1 @ x2))"

text \<open>
  The bytes that a sequence of \<open>write\<close> calls hands over, and their number: a call with
  \<open>count \<le> 0\<close> hands over nothing.
\<close>

definition written_bytes :: "(byte list \<times> int) list \<Rightarrow> byte list" where
  "written_bytes ws = concat (map (\<lambda>(ptr, count). take (nat count) ptr) ws)"

definition written_count :: "(byte list \<times> int) list \<Rightarrow> int" where
  "written_count ws = sum_list (map (\<lambda>(ptr, count). max 0 count) ws)"

text \<open>The header that \<open>close\<close> builds for a stream.\<close>

definition close_header :: "provider \<Rightarrow> TarOutputStream \<Rightarrow> archive_entry" where
  "close_header P s =
     archive_entry_new
       \<lparr> ae_pathname := c_str (os_entry_name s),
         ae_size := int (length (os_buffer s)),
         ae_filetype := AE_IFREG,
         ae_perm := perm_bits (os_mode s),
         ae_mtime := Some (p_now P) \<rparr>"

text \<open>
  An environment in which every call succeeds and the write coder pushes nothing: the
  clock is at 1000, a read coder opened over anything delivers the members \<open>ms\<close>, and no
  file exists to be added.
\<close>

definition sample_provider_of :: "arc_member list \<Rightarrow> provider" where
  "sample_provider_of ms =
     \<lparr> p_now = 1000, p_entry_new = True,
       p_write_header = (\<lambda>h e. \<lparr> wa_ret = ARCHIVE_OK, wa_err = [], wa_pushed = [] \<rparr>),
       p_write_data = (\<lambda>h bs. \<lparr> wa_ret = int (length bs), wa_err = [], wa_pushed = [] \<rparr>),
       p_write_close = (\<lambda>h. []),
       p_read_new = True,
       p_read_open = (\<lambda>b. Inr ms),
       p_disk_new = True,
       p_disk_header = (\<lambda>h e. (ARCHIVE_OK, [])),
       p_disk_block = (\<lambda>h off bs. (ARCHIVE_OK, [])),
       p_stat = (\<lambda>path. Inl ''No such file or directory''),
       p_fopen_rb = (\<lambda>path. Inl ''No such file or directory''),
       p_fopen_wb = (\<lambda>path. None),
       p_fwrite = (\<lambda>h bs. length bs),
       p_to_utf8 = (\<lambda>bs. Inr bs) \<rparr>"

definition sample_provider :: provider where
  "sample_provider = sample_provider_of []"

section \<open>Archive session (QoreTarFile.cpp)\<close>

datatype TarMode = TAR_MODE_READ | TAR_MODE_WRITE | TAR_MODE_APPEND

text \<open>
  The private data of a session.  A coder handle is \<open>None\<close> when the pointer is null; of the
  two stream pointers only whether they are null matters here.  \<open>tf_read_serial\<close> is not a
  field of the class: it numbers the read coders that \<open>archive_read_new\<close> has handed to the
  session, so that a pointer to the session's read coder kept elsewhere (by a read adapter)
  can be told from a pointer to a coder that the session has freed since.
\<close>

record QoreTarFile =
  tf_filepath :: string
  tf_mode :: TarMode
  tf_read_archive :: "reader option"
  tf_write_archive :: "writer option"
  tf_compression_method :: int
  tf_compression_level :: int
  tf_format :: int
  tf_in_memory :: bool
  tf_closed :: bool
  tf_memory_buffer :: "byte list"
  tf_memory_pos :: nat
  tf_input_stream :: bool
  tf_output_stream :: bool
  tf_read_serial :: nat

definition TAR_BUFFER_SIZE :: nat where "TAR_BUFFER_SIZE = 65536"

definition tar_error :: "string \<Rightarrow> exn" where
  "tar_error msg = (''TAR-ERROR'', msg)"

text \<open>
  \<open>entryNameEquals\<close>, in the build for platforms other than macOS: a byte comparison of the
  two C strings.
\<close>

definition entryNameEquals :: "string \<Rightarrow> string \<Rightarrow> bool" where
  "entryNameEquals archive_name lookup_name = strcmp_eq archive_name lookup_name"

text \<open>\<open>checkOpen\<close> returns \<open>None\<close> for \<open>true\<close>, and the exception it raises when it returns \<open>false\<close>.\<close>

definition checkOpen :: "QoreTarFile \<Rightarrow> bool \<Rightarrow> exn option" where
  "checkOpen s forWrite =
     (if tf_closed s then Some (tar_error ''archive is closed'')
      else if forWrite then
        (if tf_write_archive s = None then Some (tar_error ''archive is not open for writing'')
         else None)
      else
        (if tf_read_archive s = None \<and> \<not> tf_in_memory s
         then Some (tar_error ''archive is not open for reading'')
         else None))"

text \<open>
  The write callback of the session's backend: a memory-backed session appends the bytes
  to its buffer; a file or a stream takes them outside the session.
\<close>

definition push_backend :: "QoreTarFile \<Rightarrow> byte list \<Rightarrow> QoreTarFile" where
  "push_backend s bs =
     (if tf_in_memory s then s\<lparr> tf_memory_buffer := tf_memory_buffer s @ bs \<rparr> else s)"

text \<open>
  \<open>openRead\<close>.  A memory-backed session with an empty buffer keeps a read coder that was
  created but not opened, on which reading a header fails: it has no members.
\<close>

definition openRead :: "provider \<Rightarrow> QoreTarFile \<Rightarrow> QoreTarFile \<times> exn list" where
  "openRead P s =
     (if \<not> p_read_new P then
        (s\<lparr> tf_read_archive := None \<rparr>, [tar_error ''failed to create archive reader''])
      else
        (let s0 = s\<lparr> tf_read_serial := Suc (tf_read_serial s) \<rparr> in
         if tf_in_memory s \<and> tf_memory_buffer s = [] then
           (s0\<lparr> tf_read_archive := Some (reader_of []) \<rparr>, [])
         else
           (case p_read_open P
                   (if tf_in_memory s then OverMemory (tf_memory_buffer s)
                    else if tf_input_stream s then OverStream
                    else OverFile (tf_filepath s)) of
              Inl d \<Rightarrow>
                (s0\<lparr> tf_read_archive := None \<rparr>,
                 [tar_error (''failed to open archive for reading: '' @ d)])
            | Inr ms \<Rightarrow> (s0\<lparr> tf_read_archive := Some (reader_of ms) \<rparr>, []))))"

definition reopenRead :: "provider \<Rightarrow> QoreTarFile \<Rightarrow> QoreTarFile \<times> exn list" where
  "reopenRead P s = openRead P (s\<lparr> tf_read_archive := None, tf_memory_pos := 0 \<rparr>)"

subsection \<open>close and toData\<close>

text \<open>Closing the write coder flushes what it still holds to the backend.\<close>

definition close_writer :: "provider \<Rightarrow> QoreTarFile \<Rightarrow> QoreTarFile" where
  "close_writer P s =
     (case tf_write_archive s of
        None \<Rightarrow> s
      | Some w \<Rightarrow> (push_backend s (p_write_close P (w_calls w)))\<lparr> tf_write_archive := None \<rparr>)"

definition QoreTarFile_close :: "provider \<Rightarrow> QoreTarFile \<Rightarrow> QoreTarFile \<times> exn list" where
  "QoreTarFile_close P s =
     (if tf_closed s then (s, [])
      else ((close_writer P (s\<lparr> tf_read_archive := None \<rparr>))\<lparr> tf_closed := True \<rparr>, []))"

definition QoreTarFile_toData ::
    "provider \<Rightarrow> QoreTarFile \<Rightarrow> QoreTarFile \<times> exn list \<times> byte list option" where
  "QoreTarFile_toData P s =
     (if \<not> tf_in_memory s then
        (s, [tar_error ''cannot get binary data from file-based archive''], None)
      else
        (let s1 = (if tf_mode s = TAR_MODE_WRITE \<and> tf_write_archive s \<noteq> None
                   then close_writer P s else s)
         in (s1, [], Some (tf_memory_buffer s1))))"

subsection \<open>Accessors\<close>

definition QoreTarFile_getPath :: "QoreTarFile \<Rightarrow> string option" where
  "QoreTarFile_getPath s = (if tf_filepath s = [] then None else Some (tf_filepath s))"

definition QoreTarFile_getCompressionMethod :: "QoreTarFile \<Rightarrow> int" where
  "QoreTarFile_getCompressionMethod s = tf_compression_method s"

definition QoreTarFile_getFormat :: "QoreTarFile \<Rightarrow> int" where
  "QoreTarFile_getFormat s = tf_format s"

subsection \<open>Enumeration and lookup\<close>

text \<open>
  Every query first calls \<open>checkOpen\<close>, then rewinds with \<open>reopenRead\<close>, then walks the
  headers.  Each walk is the \<open>while\<close> loop of its method over the read coder; after a
  \<open>reopenRead\<close> that raised nothing the session holds a read coder.
\<close>

function entries_loop :: "reader \<Rightarrow> TarEntryInfo list \<Rightarrow> reader \<times> TarEntryInfo list" where
  "entries_loop a list =
     (case archive_read_next_header a of
        (None, a1) \<Rightarrow> (a1, list)
      | (Some entry, a1) \<Rightarrow>
          entries_loop (archive_read_data_skip a1) (list @ [createEntryInfo entry]))"
  by pat_completeness auto
termination
  by (relation "measure (\<lambda>(a, list). length (r_pending a))")
    (auto simp: archive_read_next_header_def archive_read_data_skip_def split: list.splits)

declare entries_loop.simps [simp del]

definition QoreTarFile_entries ::
    "provider \<Rightarrow> QoreTarFile \<Rightarrow> QoreTarFile \<times> exn list \<times> TarEntryInfo list option" where
  "QoreTarFile_entries P s =
     (case checkOpen s False of
        Some e \<Rightarrow> (s, [e], None)
      | None \<Rightarrow>
          (case reopenRead P s of
             (s1, xs) \<Rightarrow>
               if xs \<noteq> [] then (s1, xs, None)
               else
                 (case tf_read_archive s1 of
                    None \<Rightarrow> (s1, [], None)
                  | Some a \<Rightarrow>
                      (case entries_loop a [] of
                         (a1, list) \<Rightarrow> (s1\<lparr> tf_read_archive := Some a1 \<rparr>, [], Some list)))))"

function count_loop :: "reader \<Rightarrow> int \<Rightarrow> reader \<times> int" where
  "count_loop a count =
     (case archive_read_next_header a of
        (None, a1) \<Rightarrow> (a1, count)
      | (Some entry, a1) \<Rightarrow> count_loop (archive_read_data_skip a1) (count + 1))"
  by pat_completeness auto
termination
  by (relation "measure (\<lambda>(a, count). length (r_pending a))")
    (auto simp: archive_read_next_header_def archive_read_data_skip_def split: list.splits)

declare count_loop.simps [simp del]

definition QoreTarFile_count :: "provider \<Rightarrow> QoreTarFile \<Rightarrow> QoreTarFile \<times> exn list \<times> int" where
  "QoreTarFile_count P s =
     (case checkOpen s False of
        Some e \<Rightarrow> (s, [e], - 1)
      | None \<Rightarrow>
          (case reopenRead P s of
             (s1, xs) \<Rightarrow>
               if xs \<noteq> [] then (s1, xs, - 1)
               else
                 (case tf_read_archive s1 of
                    None \<Rightarrow> (s1, [], - 1)
                  | Some a \<Rightarrow>
                      (case count_loop a 0 of
                         (a1, count) \<Rightarrow> (s1\<lparr> tf_read_archive := Some a1 \<rparr>, [], count)))))"

function hasEntry_loop :: "reader \<Rightarrow> string \<Rightarrow> reader \<times> bool" where
  "hasEntry_loop a name =
     (case archive_read_next_header a of
        (None, a1) \<Rightarrow> (a1, False)
      | (Some entry, a1) \<Rightarrow>
          if entryNameEquals (ae_pathname entry) name then (a1, True)
          else hasEntry_loop (archive_read_data_skip a1) name)"
  by pat_completeness auto
termination
  by (relation "measure (\<lambda>(a, name). length (r_pending a))")
    (auto simp: archive_read_next_header_def archive_read_data_skip_def split: list.splits)

declare hasEntry_loop.simps [simp del]

definition QoreTarFile_hasEntry ::
    "provider \<Rightarrow> string \<Rightarrow> QoreTarFile \<Rightarrow> QoreTarFile \<times> exn list \<times> bool" where
  "QoreTarFile_hasEntry P name s =
     (case checkOpen s False of
        Some e \<Rightarrow> (s, [e], False)
      | None \<Rightarrow>
          (case reopenRead P s of
             (s1, xs) \<Rightarrow>
               if xs \<noteq> [] then (s1, xs, False)
               else
                 (case tf_read_archive s1 of
                    None \<Rightarrow> (s1, [], False)
                  | Some a \<Rightarrow>
                      (case hasEntry_loop a name of
                         (a1, found) \<Rightarrow> (s1\<lparr> tf_read_archive := Some a1 \<rparr>, [], found)))))"

function getEntry_loop :: "reader \<Rightarrow> string \<Rightarrow> reader \<times> TarEntryInfo option" where
  "getEntry_loop a name =
     (case archive_read_next_header a of
        (None, a1) \<Rightarrow> (a1, None)
      | (Some entry, a1) \<Rightarrow>
          if entryNameEquals (ae_pathname entry) name then (a1, Some (createEntryInfo entry))
          else getEntry_loop (archive_read_data_skip a1) name)"
  by pat_completeness auto
termination
  by (relation "measure (\<lambda>(a, name). length (r_pending a))")
    (auto simp: archive_read_next_header_def archive_read_data_skip_def split: list.splits)

declare getEntry_loop.simps [simp del]

definition QoreTarFile_getEntry ::
    "provider \<Rightarrow> string \<Rightarrow> QoreTarFile \<Rightarrow> QoreTarFile \<times> exn list \<times> TarEntryInfo option" where
  "QoreTarFile_getEntry P name s =
     (case checkOpen s False of
        Some e \<Rightarrow> (s, [e], None)
      | None \<Rightarrow>
          (case reopenRead P s of
             (s1, xs) \<Rightarrow>
               if xs \<noteq> [] then (s1, xs, None)
               else
                 (case tf_read_archive s1 of
                    None \<Rightarrow> (s1, [], None)
                  | Some a \<Rightarrow>
                      (case getEntry_loop a name of
                         (a1, info) \<Rightarrow> (s1\<lparr> tf_read_archive := Some a1 \<rparr>, [], info)))))"

subsection \<open>read and readText\<close>

text \<open>
  The inner loop of \<open>read\<close>: \<open>archive_read_data\<close> into a buffer of \<open>TAR_BUFFER_SIZE\<close> bytes
  until it returns 0 or a negative status, which is returned with the bytes collected.
\<close>

function read_payload :: "reader \<Rightarrow> byte list \<Rightarrow> int \<times> byte list \<times> reader" where
  "read_payload a data =
     (case archive_read_data a TAR_BUFFER_SIZE of
        (bytes_read, bytes, a1) \<Rightarrow>
          if bytes_read > 0 then read_payload a1 (data @ bytes)
          else (bytes_read, data, a1))"
  by pat_completeness auto
termination
  by (relation "measure (\<lambda>(a, data). length (r_data a))")
    (auto simp: archive_read_data_def TAR_BUFFER_SIZE_def ARCHIVE_FATAL_def
          split: if_splits option.splits)

declare read_payload.simps [simp del]

function read_loop :: "reader \<Rightarrow> string \<Rightarrow> reader \<times> exn list \<times> byte list option" where
  "read_loop a name =
     (case archive_read_next_header a of
        (None, a1) \<Rightarrow> (a1, [tar_error (''entry '' @ [CHR 0x27] @ c_str name @ [CHR 0x27] @ '' not found'')], None)
      | (Some entry, a1) \<Rightarrow>
          if entryNameEquals (ae_pathname entry) name then
            (if ae_size entry \<le> 0 then (a1, [], Some [])
             else
               (case read_payload a1 [] of
                  (bytes_read, data, a2) \<Rightarrow>
                    if bytes_read < 0 then
                      (a2, [tar_error (''failed to read entry data: '' @ get_read_error a2)], None)
                    else (a2, [], Some data)))
          else read_loop (archive_read_data_skip a1) name)"
  by pat_completeness auto
termination
  by (relation "measure (\<lambda>(a, name). length (r_pending a))")
    (auto simp: archive_read_next_header_def archive_read_data_skip_def split: list.splits)

declare read_loop.simps [simp del]

definition QoreTarFile_read ::
    "provider \<Rightarrow> string \<Rightarrow> QoreTarFile \<Rightarrow> QoreTarFile \<times> exn list \<times> byte list option" where
  "QoreTarFile_read P name s =
     (case checkOpen s False of
        Some e \<Rightarrow> (s, [e], None)
      | None \<Rightarrow>
          (case reopenRead P s of
             (s1, xs) \<Rightarrow>
               if xs \<noteq> [] then (s1, xs, None)
               else
                 (case tf_read_archive s1 of
                    None \<Rightarrow> (s1, [], None)
                  | Some a \<Rightarrow>
                      (case read_loop a name of
                         (a1, xs1, data) \<Rightarrow> (s1\<lparr> tf_read_archive := Some a1 \<rparr>, xs1, data)))))"

text \<open>\<open>readText\<close> returns the bytes of the string and the name of its encoding, if one is given.\<close>

definition QoreTarFile_readText ::
    "provider \<Rightarrow> string \<Rightarrow> string option \<Rightarrow> QoreTarFile
       \<Rightarrow> QoreTarFile \<times> exn list \<times> (byte list \<times> string option) option" where
  "QoreTarFile_readText P name encoding s =
     (case QoreTarFile_read P name s of
        (s1, xs, data) \<Rightarrow>
          (case data of
             None \<Rightarrow> (s1, xs, None)
           | Some d \<Rightarrow> if xs \<noteq> [] then (s1, xs, None) else (s1, xs, Some (d, encoding))))"

subsection \<open>Adding entries\<close>

text \<open>
  The add options hash, by what \<open>parseAddOptions\<close> reads from it: a key that is absent (or,
  for the strings and the date, not of the expected type) is \<open>None\<close>; a number is the value
  after its conversion to \<open>int\<close>.
\<close>

record add_opts =
  ao_mode :: "int option"
  ao_uid :: "int option"
  ao_gid :: "int option"
  ao_uname :: "string option"
  ao_gname :: "string option"
  ao_modified :: "int option"
  ao_preserve_permissions :: "bool option"
  ao_dereference_symlinks :: "bool option"

record add_settings =
  as_mode :: int
  as_uid :: int
  as_gid :: int
  as_uname :: string
  as_gname :: string
  as_modified_time :: int
  as_preserve_permissions :: bool
  as_dereference_symlinks :: bool

text \<open>The defaults that \<open>add\<close> and \<open>openOutputStream\<close> set before parsing: mode 0644.\<close>

definition add_defaults :: add_settings where
  "add_defaults =
     \<lparr> as_mode = 420, as_uid = 0, as_gid = 0, as_uname = [], as_gname = [],
       as_modified_time = 0, as_preserve_permissions = True, as_dereference_symlinks = False \<rparr>"

definition parseAddOptions :: "add_opts option \<Rightarrow> add_settings \<Rightarrow> add_settings" where
  "parseAddOptions opts d =
     (case opts of
        None \<Rightarrow> d
      | Some h \<Rightarrow>
          \<lparr> as_mode = (case ao_mode h of None \<Rightarrow> as_mode d | Some v \<Rightarrow> v),
            as_uid = (case ao_uid h of None \<Rightarrow> as_uid d | Some v \<Rightarrow> v),
            as_gid = (case ao_gid h of None \<Rightarrow> as_gid d | Some v \<Rightarrow> v),
            as_uname = (case ao_uname h of None \<Rightarrow> as_uname d | Some v \<Rightarrow> c_str v),
            as_gname = (case ao_gname h of None \<Rightarrow> as_gname d | Some v \<Rightarrow> c_str v),
            as_modified_time = (case ao_modified h of None \<Rightarrow> as_modified_time d | Some v \<Rightarrow> v),
            as_preserve_permissions =
              (case ao_preserve_permissions h of None \<Rightarrow> as_preserve_permissions d | Some v \<Rightarrow> v),
            as_dereference_symlinks =
              (case ao_dereference_symlinks h of None \<Rightarrow> as_dereference_symlinks d | Some v \<Rightarrow> v) \<rparr>)"

text \<open>
  A call on the session's write coder: the coder records it and the backend takes the
  bytes that the provider pushes.
\<close>

definition session_write_header ::
    "provider \<Rightarrow> QoreTarFile \<Rightarrow> writer \<Rightarrow> archive_entry \<Rightarrow> wans \<times> QoreTarFile" where
  "session_write_header P s w e =
     (case archive_write_header P w e of
        (ans, w1) \<Rightarrow> (ans, (push_backend s (wa_pushed ans))\<lparr> tf_write_archive := Some w1 \<rparr>))"

definition session_write_data ::
    "provider \<Rightarrow> QoreTarFile \<Rightarrow> writer \<Rightarrow> byte list \<Rightarrow> wans \<times> QoreTarFile" where
  "session_write_data P s w bs =
     (case archive_write_data P w bs of
        (ans, w1) \<Rightarrow> (ans, (push_backend s (wa_pushed ans))\<lparr> tf_write_archive := Some w1 \<rparr>))"

text \<open>\<open>add(name, data, opts)\<close>; \<open>data\<close> may be a null pointer.\<close>

definition QoreTarFile_add ::
    "provider \<Rightarrow> string \<Rightarrow> byte list option \<Rightarrow> add_opts option \<Rightarrow> QoreTarFile
       \<Rightarrow> QoreTarFile \<times> exn list" where
  "QoreTarFile_add P name data opts s =
     (case checkOpen s True of
        Some e \<Rightarrow> (s, [e])
      | None \<Rightarrow>
          (case tf_write_archive s of
             None \<Rightarrow> (s, [])
           | Some w \<Rightarrow>
               (let st = parseAddOptions opts add_defaults in
                if \<not> p_entry_new P then (s, [tar_error ''failed to create archive entry''])
                else
                  (let size = (case data of None \<Rightarrow> 0 | Some d \<Rightarrow> length d);
                       e0 = archive_entry_new
                              \<lparr> ae_pathname := c_str name, ae_size := int size,
                                ae_filetype := AE_IFREG, ae_perm := perm_bits (as_mode st) \<rparr>;
                       e1 = (if as_uid st > 0 then e0\<lparr> ae_uid := as_uid st \<rparr> else e0);
                       e2 = (if as_gid st > 0 then e1\<lparr> ae_gid := as_gid st \<rparr> else e1);
                       e3 = (if as_uname st \<noteq> [] then e2\<lparr> ae_uname := Some (as_uname st) \<rparr> else e2);
                       e4 = (if as_gname st \<noteq> [] then e3\<lparr> ae_gname := Some (as_gname st) \<rparr> else e3);
                       entry = e4\<lparr> ae_mtime := Some (if as_modified_time st > 0
                                                     then as_modified_time st else p_now P) \<rparr>
                   in case session_write_header P s w entry of
                        (ans, s1) \<Rightarrow>
                          if wa_ret ans \<noteq> ARCHIVE_OK then
                            (s1, [tar_error (''failed to write entry header: '' @ wa_err ans)])
                          else
                            (case data of
                               None \<Rightarrow> (s1, [])
                             | Some d \<Rightarrow>
                                 if length d > 0 then
                                   (case tf_write_archive s1 of
                                      None \<Rightarrow> (s1, [])
                                    | Some w1 \<Rightarrow>
                                        (case session_write_data P s1 w1 d of
                                           (ans2, s2) \<Rightarrow>
                                             (s2, if wa_ret ans2 < 0 \<or> wa_ret ans2 \<noteq> int (length d)
                                                  then [tar_error (''failed to write entry data: ''
                                                                     @ wa_err ans2)]
                                                  else [])))
                                 else (s1, []))))))"

text \<open>
  \<open>addText\<close> converts the text to UTF-8 first; the conversion is the runtime's and may raise.
\<close>

definition QoreTarFile_addText ::
    "provider \<Rightarrow> string \<Rightarrow> byte list \<Rightarrow> string option \<Rightarrow> add_opts option \<Rightarrow> QoreTarFile
       \<Rightarrow> QoreTarFile \<times> exn list" where
  "QoreTarFile_addText P name text encoding opts s =
     (case p_to_utf8 P text of
        Inl e \<Rightarrow> (s, [e])
      | Inr str \<Rightarrow> QoreTarFile_add P name (Some str) opts s)"

text \<open>\<open>archive_entry_copy_stat\<close> on an entry.\<close>

definition archive_entry_copy_stat :: "archive_entry \<Rightarrow> file_stat \<Rightarrow> archive_entry" where
  "archive_entry_copy_stat e st =
     e\<lparr> ae_size := st_size st, ae_filetype := st_filetype st, ae_perm := st_perm st,
        ae_uid := st_uid st, ae_gid := st_gid st, ae_mtime := Some (st_mtime st),
        ae_atime := Some (st_atime st), ae_ctime := Some (st_ctime st) \<rparr>"

text \<open>
  The transfer loop of \<open>addFile\<close> over the content that \<open>fread\<close> has left to deliver, in
  pieces of \<open>TAR_BUFFER_SIZE\<close> bytes.
\<close>

function addFile_loop ::
    "provider \<Rightarrow> QoreTarFile \<Rightarrow> byte list \<Rightarrow> QoreTarFile \<times> exn list" where
  "addFile_loop P s content =
     (if take TAR_BUFFER_SIZE content = [] then (s, [])
      else
        (case tf_write_archive s of
           None \<Rightarrow> (s, [])
         | Some w \<Rightarrow>
             (case session_write_data P s w (take TAR_BUFFER_SIZE content) of
                (ans, s1) \<Rightarrow>
                  if wa_ret ans < 0 then
                    (s1, [tar_error (''failed to write file data: '' @ wa_err ans)])
                  else addFile_loop P s1 (drop TAR_BUFFER_SIZE content))))"
  by pat_completeness auto
termination
  by (relation "measure (\<lambda>(P, s, content). length content)")
    (auto simp: TAR_BUFFER_SIZE_def)

declare addFile_loop.simps [simp del]

definition QoreTarFile_addFile ::
    "provider \<Rightarrow> string \<Rightarrow> string \<Rightarrow> add_opts option \<Rightarrow> QoreTarFile
       \<Rightarrow> QoreTarFile \<times> exn list" where
  "QoreTarFile_addFile P name filepath opts s =
     (case checkOpen s True of
        Some e \<Rightarrow> (s, [e])
      | None \<Rightarrow>
          (case tf_write_archive s of
             None \<Rightarrow> (s, [])
           | Some w \<Rightarrow>
               (case p_stat P (c_str filepath) of
                  Inl err \<Rightarrow>
                    (s, [tar_error (''failed to stat file '' @ [CHR 0x27] @ c_str filepath
                                      @ [CHR 0x27] @ '': '' @ err)])
                | Inr st \<Rightarrow>
                    if \<not> p_entry_new P then (s, [tar_error ''failed to create archive entry''])
                    else
                      (let entry = archive_entry_copy_stat
                                     (archive_entry_new\<lparr> ae_pathname := c_str name \<rparr>) st
                       in case session_write_header P s w entry of
                            (ans, s1) \<Rightarrow>
                              if wa_ret ans \<noteq> ARCHIVE_OK then
                                (s1, [tar_error (''failed to write entry header: '' @ wa_err ans)])
                              else if st_filetype st = AE_IFREG \<and> st_size st > 0 then
                                (case p_fopen_rb P (c_str filepath) of
                                   Inl err \<Rightarrow>
                                     (s1, [tar_error (''failed to open file '' @ [CHR 0x27]
                                                        @ c_str filepath @ [CHR 0x27] @ '': '' @ err)])
                                 | Inr content \<Rightarrow> addFile_loop P s1 content)
                              else (s1, [])))))"

text \<open>
  The three header-only additions have one shape: build the header, write it, and raise
  when the coder refuses it.
\<close>

definition add_header_only ::
    "provider \<Rightarrow> string \<Rightarrow> archive_entry \<Rightarrow> QoreTarFile \<Rightarrow> QoreTarFile \<times> exn list" where
  "add_header_only P what entry s =
     (case checkOpen s True of
        Some e \<Rightarrow> (s, [e])
      | None \<Rightarrow>
          (case tf_write_archive s of
             None \<Rightarrow> (s, [])
           | Some w \<Rightarrow>
               if \<not> p_entry_new P then (s, [tar_error ''failed to create archive entry''])
               else
                 (case session_write_header P s w entry of
                    (ans, s1) \<Rightarrow>
                      (s1, if wa_ret ans \<noteq> ARCHIVE_OK
                           then [tar_error (''failed to write '' @ what @ '' entry: '' @ wa_err ans)]
                           else []))))"

definition QoreTarFile_addDirectory ::
    "provider \<Rightarrow> string \<Rightarrow> add_opts option \<Rightarrow> QoreTarFile \<Rightarrow> QoreTarFile \<times> exn list" where
  "QoreTarFile_addDirectory P name opts s =
     (let dirname = (if c_str name \<noteq> [] \<and> last (c_str name) \<noteq> CHR ''/''
                     then c_str name @ ''/'' else c_str name)
      in add_header_only P ''directory''
           (archive_entry_new
              \<lparr> ae_pathname := dirname, ae_filetype := AE_IFDIR, ae_perm := perm_bits 493,
                ae_mtime := Some (p_now P) \<rparr>) s)"

definition QoreTarFile_addSymlink ::
    "provider \<Rightarrow> string \<Rightarrow> string \<Rightarrow> add_opts option \<Rightarrow> QoreTarFile
       \<Rightarrow> QoreTarFile \<times> exn list" where
  "QoreTarFile_addSymlink P name target opts s =
     add_header_only P ''symlink''
       (archive_entry_new
          \<lparr> ae_pathname := c_str name, ae_filetype := AE_IFLNK, ae_perm := perm_bits 511,
            ae_mtime := Some (p_now P), ae_symlink := Some (c_str target) \<rparr>) s"

definition QoreTarFile_addHardlink ::
    "provider \<Rightarrow> string \<Rightarrow> string \<Rightarrow> add_opts option \<Rightarrow> QoreTarFile
       \<Rightarrow> QoreTarFile \<times> exn list" where
  "QoreTarFile_addHardlink P name target opts s =
     add_header_only P ''hardlink''
       (archive_entry_new
          \<lparr> ae_pathname := c_str name, ae_mtime := Some (p_now P),
            ae_hardlink := Some (c_str target) \<rparr>) s"

subsection \<open>Output stream\<close>

text \<open>
  \<open>openOutputStream\<close> constructs a write adapter on \<open>write_archive\<close>: the adapter keeps the
  session's pointer, not a coder of its own, so what it writes when it is closed goes
  through the session's write coder to the session's backend.  What the caller holds is
  therefore the adapter without the coder behind its pointer; \<open>ostream_on\<close> puts a coder
  behind the pointer, \<open>ostream_handle_of\<close> takes it away again.
\<close>

record ostream_handle =
  oh_entry_name :: string
  oh_mode :: int
  oh_buffer :: "byte list"
  oh_closed :: bool
  oh_header_written :: bool

definition ostream_handle_of :: "TarOutputStream \<Rightarrow> ostream_handle" where
  "ostream_handle_of os =
     \<lparr> oh_entry_name = os_entry_name os, oh_mode = os_mode os, oh_buffer = os_buffer os,
       oh_closed = os_closed os, oh_header_written = os_header_written os \<rparr>"

definition ostream_on :: "writer \<Rightarrow> ostream_handle \<Rightarrow> TarOutputStream" where
  "ostream_on w h =
     \<lparr> os_archive = w, os_entry_name = oh_entry_name h, os_mode = oh_mode h,
       os_buffer = oh_buffer h, os_closed = oh_closed h,
       os_header_written = oh_header_written h \<rparr>"

definition QoreTarFile_openOutputStream ::
    "provider \<Rightarrow> string \<Rightarrow> add_opts option \<Rightarrow> QoreTarFile
       \<Rightarrow> QoreTarFile \<times> exn list \<times> ostream_handle option" where
  "QoreTarFile_openOutputStream P name opts s =
     (case checkOpen s True of
        Some e \<Rightarrow> (s, [e], None)
      | None \<Rightarrow>
          (case tf_write_archive s of
             None \<Rightarrow> (s, [], None)
           | Some w \<Rightarrow>
               (let st = parseAddOptions opts add_defaults
                in (s, [], Some (ostream_handle_of (TarOutputStream_new w name (as_mode st)))))))"

text \<open>
  The operations of an adapter that the session has handed out.  \<open>write\<close> does not follow
  the pointer, so it does not matter which coder stands behind it.  \<open>close\<close> on an adapter
  that is not closed yet follows the pointer: it runs on the session's write coder, the
  session keeps the coder as the adapter leaves it, and the backend takes the bytes that
  the coder pushed meanwhile.  Once the session has freed its write coder (\<open>close\<close> of the
  session) the pointer dangles; \<open>None\<close> stands for a call on such an adapter, about which
  nothing is said.
\<close>

definition ostream_write ::
    "ostream_handle \<Rightarrow> byte list \<Rightarrow> int \<Rightarrow> ostream_handle \<times> exn list" where
  "ostream_write h ptr count =
     (case TarOutputStream_write (ostream_on \<lparr> w_calls = [], w_pushed = [] \<rparr> h) ptr count of
        (os, xs) \<Rightarrow> (ostream_handle_of os, xs))"

definition ostream_close ::
    "provider \<Rightarrow> QoreTarFile \<Rightarrow> ostream_handle
       \<Rightarrow> (QoreTarFile \<times> ostream_handle \<times> exn list) option" where
  "ostream_close P s h =
     (if oh_closed h then Some (s, h, [])
      else
        (case tf_write_archive s of
           None \<Rightarrow> None
         | Some w \<Rightarrow>
             (case TarOutputStream_close P (ostream_on w h) of
                (os, xs) \<Rightarrow>
                  Some ((push_backend s (drop (length (w_pushed w)) (w_pushed (os_archive os))))
                          \<lparr> tf_write_archive := Some (os_archive os) \<rparr>,
                        ostream_handle_of os, xs))))"
subsection \<open>Extraction\<close>

text \<open>
  The extract options hash, by what \<open>parseExtractOptions\<close> reads from it, and the settings
  of \<open>extractAll\<close>.
\<close>

record extract_opts =
  eo_destination :: "string option"
  eo_preserve_permissions :: "bool option"
  eo_preserve_ownership :: "bool option"
  eo_preserve_times :: "bool option"
  eo_overwrite :: "bool option"
  eo_create_directories :: "bool option"
  eo_strip_count :: "int option"

record extract_settings =
  es_destination :: string
  es_preserve_permissions :: bool
  es_preserve_ownership :: bool
  es_preserve_times :: bool
  es_overwrite :: bool
  es_create_directories :: bool
  es_strip_count :: int

definition extract_defaults :: "string option \<Rightarrow> extract_settings" where
  "extract_defaults destPath =
     \<lparr> es_destination = (case destPath of None \<Rightarrow> ''.'' | Some d \<Rightarrow> c_str d),
       es_preserve_permissions = True, es_preserve_ownership = False,
       es_preserve_times = True, es_overwrite = True, es_create_directories = True,
       es_strip_count = 0 \<rparr>"

definition parseExtractOptions :: "extract_opts option \<Rightarrow> extract_settings \<Rightarrow> extract_settings" where
  "parseExtractOptions opts d =
     (case opts of
        None \<Rightarrow> d
      | Some h \<Rightarrow>
          \<lparr> es_destination = (case eo_destination h of None \<Rightarrow> es_destination d | Some v \<Rightarrow> c_str v),
            es_preserve_permissions =
              (case eo_preserve_permissions h of None \<Rightarrow> es_preserve_permissions d | Some v \<Rightarrow> v),
            es_preserve_ownership =
              (case eo_preserve_ownership h of None \<Rightarrow> es_preserve_ownership d | Some v \<Rightarrow> v),
            es_preserve_times =
              (case eo_preserve_times h of None \<Rightarrow> es_preserve_times d | Some v \<Rightarrow> v),
            es_overwrite = (case eo_overwrite h of None \<Rightarrow> es_overwrite d | Some v \<Rightarrow> v),
            es_create_directories =
              (case eo_create_directories h of None \<Rightarrow> es_create_directories d | Some v \<Rightarrow> v),
            es_strip_count = (case eo_strip_count h of None \<Rightarrow> es_strip_count d | Some v \<Rightarrow> v) \<rparr>)"

text \<open>The extraction flags of the provider's header \<open>archive.h\<close>.\<close>

definition ARCHIVE_EXTRACT_OWNER :: int where "ARCHIVE_EXTRACT_OWNER = 1"
definition ARCHIVE_EXTRACT_PERM :: int where "ARCHIVE_EXTRACT_PERM = 2"
definition ARCHIVE_EXTRACT_TIME :: int where "ARCHIVE_EXTRACT_TIME = 4"
definition ARCHIVE_EXTRACT_NO_OVERWRITE :: int where "ARCHIVE_EXTRACT_NO_OVERWRITE = 8"

definition extract_flags :: "extract_settings \<Rightarrow> int" where
  "extract_flags st =
     ARCHIVE_EXTRACT_TIME
     + (if es_preserve_permissions st then ARCHIVE_EXTRACT_PERM else 0)
     + (if es_preserve_ownership st then ARCHIVE_EXTRACT_OWNER else 0)
     + (if \<not> es_overwrite st then ARCHIVE_EXTRACT_NO_OVERWRITE else 0)"

definition security_error :: "string \<Rightarrow> exn" where
  "security_error msg = (''TAR-SECURITY-ERROR'', msg)"

text \<open>
  The block loop of \<open>extractAll\<close> over the blocks that \<open>archive_read_data_block\<close> still has
  to deliver: the blocks left, the calls on the disk writer, and the exception sink.  A
  block that the disk writer refuses raises and leaves this inner loop only.
\<close>

fun copy_blocks ::
    "provider \<Rightarrow> string \<Rightarrow> (int \<times> byte list) list \<Rightarrow> dcall list \<Rightarrow> exn list
       \<Rightarrow> (int \<times> byte list) list \<times> dcall list \<times> exn list" where
  "copy_blocks P entry_name [] disk xs = ([], disk, xs)"
| "copy_blocks P entry_name ((offset, buffer) # blocks) disk xs =
     (case p_disk_block P disk offset buffer of
        (r, err) \<Rightarrow>
          if r \<noteq> ARCHIVE_OK then
            (blocks, disk @ [DiskBlock offset buffer],
             xs @ [tar_error (''failed to write data for '' @ [CHR 0x27] @ entry_name
                                @ [CHR 0x27] @ '': '' @ err)])
          else copy_blocks P entry_name blocks (disk @ [DiskBlock offset buffer]) xs)"

text \<open>
  The header loop of \<open>extractAll\<close>.  \<open>entry_name\<close> points into the entry: once
  \<open>archive_entry_set_pathname\<close> has replaced the path, the string behind it is the path
  rooted under the destination, and that is what the two \<open>TAR-ERROR\<close> messages show.
\<close>

function extract_loop ::
    "provider \<Rightarrow> string \<Rightarrow> reader \<Rightarrow> dcall list \<Rightarrow> exn list
       \<Rightarrow> reader \<times> dcall list \<times> exn list" where
  "extract_loop P destination a disk xs =
     (case archive_read_next_header a of
        (None, a1) \<Rightarrow> (a1, disk, xs)
      | (Some entry, a1) \<Rightarrow>
          (let entry_name = ae_pathname entry in
           if \<not> isPathSafe (Some entry_name) then
             (a1, disk,
              xs @ [security_error (''refusing to extract entry with unsafe path: '' @ [CHR 0x27]
                      @ c_str entry_name @ [CHR 0x27] @ '' (potential path traversal attack)'')])
           else
             (let entry1 = entry\<lparr> ae_pathname := destination @ ''/'' @ c_str entry_name \<rparr>;
                  hardlink_target = ae_hardlink entry1
              in if nonempty_target hardlink_target \<and> \<not> isPathSafe hardlink_target then
                   (a1, disk,
                    xs @ [security_error (''refusing to extract hardlink with unsafe target: ''
                            @ [CHR 0x27] @ (case hardlink_target of None \<Rightarrow> [] | Some t \<Rightarrow> c_str t)
                            @ [CHR 0x27])])
                 else
                   (let entry2 =
                          (case hardlink_target of
                             None \<Rightarrow> entry1
                           | Some t \<Rightarrow>
                               if nonempty_target hardlink_target
                               then entry1\<lparr> ae_hardlink := Some (destination @ ''/'' @ c_str t) \<rparr>
                               else entry1);
                        symlink_target = ae_symlink entry2
                    in if nonempty_target symlink_target \<and> \<not> isPathSafe symlink_target then
                         (a1, disk,
                          xs @ [security_error (''refusing to extract symlink with unsafe target: ''
                                  @ [CHR 0x27] @ (case symlink_target of None \<Rightarrow> [] | Some t \<Rightarrow> c_str t)
                                  @ [CHR 0x27])])
                       else
                         (case p_disk_header P disk entry2 of
                            (r, err) \<Rightarrow>
                              if r \<noteq> ARCHIVE_OK then
                                (a1, disk @ [DiskHeader entry2],
                                 xs @ [tar_error (''failed to extract '' @ [CHR 0x27]
                                         @ ae_pathname entry2 @ [CHR 0x27] @ '': '' @ err)])
                              else
                                (case (if ae_size entry2 > 0
                                       then copy_blocks P (ae_pathname entry2) (r_blocks a1)
                                              (disk @ [DiskHeader entry2]) xs
                                       else (r_blocks a1, disk @ [DiskHeader entry2], xs)) of
                                   (blocks, disk1, xs1) \<Rightarrow>
                                     extract_loop P destination (a1\<lparr> r_blocks := blocks \<rparr>)
                                       (disk1 @ [DiskFinishEntry]) xs1))))))"
  by pat_completeness auto
termination
  by (relation "measure (\<lambda>(P, destination, a, disk, xs). length (r_pending a))")
    (auto simp: archive_read_next_header_def split: list.splits)

declare extract_loop.simps [simp del]

text \<open>
  \<open>extractAll\<close> returns the session, the exceptions raised and the calls it made on the
  disk writer.
\<close>

definition QoreTarFile_extractAll ::
    "provider \<Rightarrow> string option \<Rightarrow> extract_opts option \<Rightarrow> QoreTarFile
       \<Rightarrow> QoreTarFile \<times> exn list \<times> dcall list" where
  "QoreTarFile_extractAll P destPath opts s =
     (case checkOpen s False of
        Some e \<Rightarrow> (s, [e], [])
      | None \<Rightarrow>
          (let st = parseExtractOptions opts (extract_defaults destPath) in
           case reopenRead P s of
             (s1, xs) \<Rightarrow>
               if xs \<noteq> [] then (s1, xs, [])
               else if \<not> p_disk_new P then (s1, [tar_error ''failed to create disk writer''], [])
               else
                 (case tf_read_archive s1 of
                    None \<Rightarrow> (s1, [], [])
                  | Some a \<Rightarrow>
                      (case extract_loop P (es_destination st) a
                              [DiskSetOptions (extract_flags st), DiskStandardLookup] [] of
                         (a1, disk, xs1) \<Rightarrow>
                           (s1\<lparr> tf_read_archive := Some a1 \<rparr>, xs1, disk @ [DiskClose])))))"

text \<open>
  \<open>extractTo\<close> returns the session, the exceptions raised and the calls it made on the
  output file; \<open>extractEntry\<close> is \<open>extractTo\<close>.
\<close>

function extractTo_write ::
    "provider \<Rightarrow> reader \<Rightarrow> fcall list \<Rightarrow> reader \<times> exn list \<times> fcall list" where
  "extractTo_write P a file =
     (case archive_read_data a TAR_BUFFER_SIZE of
        (bytes_read, bytes, a1) \<Rightarrow>
          if bytes_read > 0 then
            (if int (p_fwrite P file bytes) \<noteq> bytes_read then
               (a1, [tar_error ''failed to write to destination file''],
                file @ [FWrite bytes, FClose])
             else extractTo_write P a1 (file @ [FWrite bytes]))
          else (a1, [], file @ [FClose]))"
  by pat_completeness auto
termination
  by (relation "measure (\<lambda>(P, a, file). length (r_data a))")
    (auto simp: archive_read_data_def TAR_BUFFER_SIZE_def ARCHIVE_FATAL_def
          split: if_splits option.splits)

declare extractTo_write.simps [simp del]

function extractTo_loop ::
    "provider \<Rightarrow> reader \<Rightarrow> string \<Rightarrow> string \<Rightarrow> reader \<times> exn list \<times> fcall list" where
  "extractTo_loop P a name destination =
     (case archive_read_next_header a of
        (None, a1) \<Rightarrow>
          (a1, [tar_error (''entry '' @ [CHR 0x27] @ c_str name @ [CHR 0x27] @ '' not found'')], [])
      | (Some entry, a1) \<Rightarrow>
          if entryNameEquals (ae_pathname entry) name then
            (case p_fopen_wb P (c_str destination) of
               Some err \<Rightarrow>
                 (a1, [tar_error (''failed to open destination file '' @ [CHR 0x27]
                         @ c_str destination @ [CHR 0x27] @ '': '' @ err)], [])
             | None \<Rightarrow> extractTo_write P a1 [FOpen (c_str destination)])
          else extractTo_loop P (archive_read_data_skip a1) name destination)"
  by pat_completeness auto
termination
  by (relation "measure (\<lambda>(P, a, name, destination). length (r_pending a))")
    (auto simp: archive_read_next_header_def archive_read_data_skip_def split: list.splits)

declare extractTo_loop.simps [simp del]

definition QoreTarFile_extractTo ::
    "provider \<Rightarrow> string \<Rightarrow> string \<Rightarrow> QoreTarFile \<Rightarrow> QoreTarFile \<times> exn list \<times> fcall list" where
  "QoreTarFile_extractTo P name destination s =
     (case checkOpen s False of
        Some e \<Rightarrow> (s, [e], [])
      | None \<Rightarrow>
          (case reopenRead P s of
             (s1, xs) \<Rightarrow>
               if xs \<noteq> [] then (s1, xs, [])
               else
                 (case tf_read_archive s1 of
                    None \<Rightarrow> (s1, [], [])
                  | Some a \<Rightarrow>
                      (case extractTo_loop P a name destination of
                         (a1, xs1, file) \<Rightarrow> (s1\<lparr> tf_read_archive := Some a1 \<rparr>, xs1, file)))))"

definition QoreTarFile_extractEntry ::
    "provider \<Rightarrow> string \<Rightarrow> string \<Rightarrow> QoreTarFile \<Rightarrow> QoreTarFile \<times> exn list \<times> fcall list" where
  "QoreTarFile_extractEntry P name destPath s = QoreTarFile_extractTo P name destPath s"

subsection \<open>Input stream\<close>

function openInputStream_loop ::
    "reader \<Rightarrow> string \<Rightarrow> reader \<times> exn list \<times> TarInputStream option" where
  "openInputStream_loop a name =
     (case archive_read_next_header a of
        (None, a1) \<Rightarrow>
          (a1, [tar_error (''entry '' @ [CHR 0x27] @ c_str name @ [CHR 0x27] @ '' not found'')], None)
      | (Some entry, a1) \<Rightarrow>
          if entryNameEquals (ae_pathname entry) name
          then (a1, [], Some (TarInputStream_new a1 entry))
          else openInputStream_loop (archive_read_data_skip a1) name)"
  by pat_completeness auto
termination
  by (relation "measure (\<lambda>(a, name). length (r_pending a))")
    (auto simp: archive_read_next_header_def archive_read_data_skip_def split: list.splits)

declare openInputStream_loop.simps [simp del]

text \<open>
  The read adapter that \<open>openInputStream\<close> constructs keeps the session's \<open>read_archive\<close>
  pointer, not a coder of its own.  What the caller holds is the adapter without the coder
  behind its pointer, and the number of the coder that the pointer refers to; \<open>istream_on\<close>
  puts a coder behind the pointer, \<open>istream_handle_of\<close> takes it away again.
\<close>

record istream_handle =
  ih_archive :: nat
  ih_entry :: archive_entry
  ih_entry_size :: int
  ih_bytes_read :: int
  ih_closed :: bool
  ih_peek_byte :: int
  ih_has_peek :: bool

definition istream_handle_of :: "nat \<Rightarrow> TarInputStream \<Rightarrow> istream_handle" where
  "istream_handle_of n is =
     \<lparr> ih_archive = n, ih_entry = is_entry is, ih_entry_size = is_entry_size is,
       ih_bytes_read = is_bytes_read is, ih_closed = is_closed is,
       ih_peek_byte = is_peek_byte is, ih_has_peek = is_has_peek is \<rparr>"

definition istream_on :: "reader \<Rightarrow> istream_handle \<Rightarrow> TarInputStream" where
  "istream_on a h =
     \<lparr> is_archive = a, is_entry = ih_entry h, is_entry_size = ih_entry_size h,
       is_bytes_read = ih_bytes_read h, is_closed = ih_closed h,
       is_peek_byte = ih_peek_byte h, is_has_peek = ih_has_peek h \<rparr>"

definition QoreTarFile_openInputStream ::
    "provider \<Rightarrow> string \<Rightarrow> QoreTarFile \<Rightarrow> QoreTarFile \<times> exn list \<times> istream_handle option" where
  "QoreTarFile_openInputStream P name s =
     (case checkOpen s False of
        Some e \<Rightarrow> (s, [e], None)
      | None \<Rightarrow>
          (case reopenRead P s of
             (s1, xs) \<Rightarrow>
               if xs \<noteq> [] then (s1, xs, None)
               else
                 (case tf_read_archive s1 of
                    None \<Rightarrow> (s1, [], None)
                  | Some a \<Rightarrow>
                      (case openInputStream_loop a name of
                         (a1, xs1, is) \<Rightarrow>
                           (s1\<lparr> tf_read_archive := Some a1 \<rparr>, xs1,
                            map_option (istream_handle_of (tf_read_serial s1)) is)))))"

text \<open>
  The operations of an adapter that the session has handed out run on the session's read
  coder, which the session keeps as the adapter leaves it.  Every operation of the session
  that rewinds frees the read coder and creates another, and \<open>close\<close> frees it; the
  adapter's pointer dangles from then on.  \<open>None\<close> stands for a call on such an adapter,
  about which nothing is said.
\<close>

definition istream_coder :: "QoreTarFile \<Rightarrow> istream_handle \<Rightarrow> reader option" where
  "istream_coder s h =
     (if tf_read_serial s = ih_archive h then tf_read_archive s else None)"

definition istream_read ::
    "QoreTarFile \<Rightarrow> istream_handle \<Rightarrow> int
       \<Rightarrow> (QoreTarFile \<times> istream_handle \<times> exn list \<times> int \<times> byte list) option" where
  "istream_read s h limit =
     (case istream_coder s h of
        None \<Rightarrow> None
      | Some a \<Rightarrow>
          (case TarInputStream_read (istream_on a h) limit of
             (is, xs, r, bytes) \<Rightarrow>
               Some (s\<lparr> tf_read_archive := Some (is_archive is) \<rparr>,
                     istream_handle_of (ih_archive h) is, xs, r, bytes)))"

definition istream_peek ::
    "QoreTarFile \<Rightarrow> istream_handle
       \<Rightarrow> (QoreTarFile \<times> istream_handle \<times> exn list \<times> int) option" where
  "istream_peek s h =
     (case istream_coder s h of
        None \<Rightarrow> None
      | Some a \<Rightarrow>
          (case TarInputStream_peek (istream_on a h) of
             (is, xs, r) \<Rightarrow>
               Some (s\<lparr> tf_read_archive := Some (is_archive is) \<rparr>,
                     istream_handle_of (ih_archive h) is, xs, r)))"

subsection \<open>Sample sessions\<close>

text \<open>
  A memory-backed session as the constructor from binary data leaves it (read mode, the
  buffer holding the data, a read coder over it), and a memory-backed session as the
  constructor for a new in-memory archive leaves it (write mode, an open write coder).
\<close>

definition memory_read_session :: "byte list \<Rightarrow> arc_member list \<Rightarrow> QoreTarFile" where
  "memory_read_session bytes ms =
     \<lparr> tf_filepath = [], tf_mode = TAR_MODE_READ, tf_read_archive = Some (reader_of ms),
       tf_write_archive = None, tf_compression_method = 0, tf_compression_level = - 1,
       tf_format = 0, tf_in_memory = True, tf_closed = False, tf_memory_buffer = bytes,
       tf_memory_pos = 0, tf_input_stream = False, tf_output_stream = False,
       tf_read_serial = 0 \<rparr>"

definition memory_write_session :: "byte list \<Rightarrow> QoreTarFile" where
  "memory_write_session bytes =
     \<lparr> tf_filepath = [], tf_mode = TAR_MODE_WRITE, tf_read_archive = None,
       tf_write_archive = Some \<lparr> w_calls = [], w_pushed = bytes \<rparr>,
       tf_compression_method = 0, tf_compression_level = - 1,
       tf_format = 0, tf_in_memory = True, tf_closed = False, tf_memory_buffer = bytes,
       tf_memory_pos = 0, tf_input_stream = False, tf_output_stream = False,
       tf_read_serial = 0 \<rparr>"

definition file_read_session :: "string \<Rightarrow> arc_member list \<Rightarrow> QoreTarFile" where
  "file_read_session path ms =
     \<lparr> tf_filepath = path, tf_mode = TAR_MODE_READ, tf_read_archive = Some (reader_of ms),
       tf_write_archive = None, tf_compression_method = 0, tf_compression_level = - 1,
       tf_format = 0, tf_in_memory = False, tf_closed = False, tf_memory_buffer = [],
       tf_memory_pos = 0, tf_input_stream = False, tf_output_stream = False,
       tf_read_serial = 0 \<rparr>"

text \<open>
  A memory-backed write session after \<open>close\<close>, the write coder having flushed two last
  bytes into the buffer.
\<close>

definition closed_memory_session :: QoreTarFile where
  "closed_memory_session =
     fst (QoreTarFile_close (sample_provider\<lparr> p_write_close := (\<lambda>h. [0, 0]) \<rparr>)
            (memory_write_session [7, 8]))"

text \<open>A regular-file member with the given path and payload, delivered without fault.\<close>

definition file_member :: "string \<Rightarrow> byte list \<Rightarrow> arc_member" where
  "file_member path payload =
     \<lparr> m_header = sample_entry\<lparr> ae_pathname := path, ae_size := int (length payload) \<rparr>,
       m_data = payload, m_fault = None, m_blocks = (if payload = [] then [] else [(0, payload)]) \<rparr>"

text \<open>
  A hardlink member and a symbolic-link member with the given path and target, without
  payload.
\<close>

definition hardlink_member :: "string \<Rightarrow> string \<Rightarrow> arc_member" where
  "hardlink_member path target =
     \<lparr> m_header = sample_entry\<lparr> ae_pathname := path, ae_hardlink := Some target \<rparr>,
       m_data = [], m_fault = None, m_blocks = [] \<rparr>"

definition symlink_member :: "string \<Rightarrow> string \<Rightarrow> arc_member" where
  "symlink_member path target =
     \<lparr> m_header = sample_entry\<lparr> ae_pathname := path, ae_filetype := AE_IFLNK, ae_perm := 511,
                                 ae_symlink := Some target \<rparr>,
       m_data = [], m_fault = None, m_blocks = [] \<rparr>"

text \<open>
  The three checks of the header loop on one entry, written on the fields of the entry: the
  path is safe, and a hardlink target or symbolic-link target that is present and whose
  first character is not the terminator is safe.  Then the header as the loop hands it to
  the disk writer once the checks pass (the path under the destination, and a hardlink
  target that is present and non-empty under the destination as well), and the headers
  among the calls on the disk writer.
\<close>

definition entry_safe :: "archive_entry \<Rightarrow> bool" where
  "entry_safe e =
     (isPathSafe (Some (ae_pathname e))
      \<and> (case ae_hardlink e of
           None \<Rightarrow> True
         | Some t \<Rightarrow> t = [] \<or> hd t = CHR 0x00 \<or> isPathSafe (Some t))
      \<and> (case ae_symlink e of
           None \<Rightarrow> True
         | Some t \<Rightarrow> t = [] \<or> hd t = CHR 0x00 \<or> isPathSafe (Some t)))"

definition rewritten :: "string \<Rightarrow> archive_entry \<Rightarrow> archive_entry" where
  "rewritten destination e =
     (let e1 = e\<lparr> ae_pathname := destination @ ''/'' @ c_str (ae_pathname e) \<rparr>
      in case ae_hardlink e of
           None \<Rightarrow> e1
         | Some t \<Rightarrow>
             if t \<noteq> [] \<and> hd t \<noteq> CHR 0x00
             then e1\<lparr> ae_hardlink := Some (destination @ ''/'' @ c_str t) \<rparr>
             else e1)"

fun headers_of :: "dcall list \<Rightarrow> archive_entry list" where
  "headers_of [] = []"
| "headers_of (DiskHeader e # cs) = e # headers_of cs"
| "headers_of (c # cs) = headers_of cs"

text \<open>
  What one pass of the header loop adds for a member that passes the checks and whose
  header the disk writer accepts: the calls on the disk writer and the exception sink
  after its header, its blocks and the end of the entry.
\<close>

definition after_entry ::
    "provider \<Rightarrow> string \<Rightarrow> arc_member \<Rightarrow> dcall list \<Rightarrow> exn list \<Rightarrow> dcall list \<times> exn list" where
  "after_entry P d m disk xs =
     (case (if ae_size (m_header m) > 0
            then copy_blocks P (ae_pathname (rewritten d (m_header m))) (m_blocks m)
                   (disk @ [DiskHeader (rewritten d (m_header m))]) xs
            else (m_blocks m, disk @ [DiskHeader (rewritten d (m_header m))], xs)) of
        (blocks, disk1, xs1) \<Rightarrow> (disk1 @ [DiskFinishEntry], xs1))"

section \<open>Properties of isPathSafe\<close>

lemma path_scan_step:
  "path_scan path p =
     (if c_at path p = CHR 0x00 then True
      else if dotdot_at path p then False else path_scan path (p + 1))"
  by (subst path_scan.simps) (simp add: dotdot_at_def)

lemma path_scan_iff:
  "path_scan path p \<longleftrightarrow>
     (\<forall>j\<ge>p. (\<forall>k. p \<le> k \<and> k < j \<longrightarrow> c_at path k \<noteq> CHR 0x00) \<longrightarrow> \<not> dotdot_at path j)"
proof (induction path p rule: path_scan.induct)
  case (1 path p)
  show ?case
  proof (cases "c_at path p = CHR 0x00")
    case True
    have "\<not> dotdot_at path j" if "p \<le> j" "\<forall>k. p \<le> k \<and> k < j \<longrightarrow> c_at path k \<noteq> CHR 0x00" for j
    proof (cases "j = p")
      case True
      with \<open>c_at path p = CHR 0x00\<close> show ?thesis by (simp add: dotdot_at_def)
    next
      case False
      with that True show ?thesis by (metis le_neq_implies_less order_refl)
    qed
    with True show ?thesis by (subst path_scan_step) simp
  next
    case nz: False
    show ?thesis
    proof (cases "dotdot_at path p")
      case True
      then have "\<not> path_scan path p"
        using nz by (subst path_scan_step) simp
      moreover have "p \<le> p \<and> (\<forall>k. p \<le> k \<and> k < p \<longrightarrow> c_at path k \<noteq> CHR 0x00)"
        by auto
      ultimately show ?thesis using True by blast
    next
      case nd: False
      have step: "path_scan path p = path_scan path (p + 1)"
        using nz nd by (subst path_scan_step) simp
      have ih: "path_scan path (p + 1) \<longleftrightarrow>
         (\<forall>j\<ge>p + 1. (\<forall>k. p + 1 \<le> k \<and> k < j \<longrightarrow> c_at path k \<noteq> CHR 0x00) \<longrightarrow> \<not> dotdot_at path j)"
        using "1.IH" nz nd unfolding dotdot_at_def by blast
      have "(\<forall>j\<ge>p + 1. (\<forall>k. p + 1 \<le> k \<and> k < j \<longrightarrow> c_at path k \<noteq> CHR 0x00) \<longrightarrow> \<not> dotdot_at path j)
         \<longleftrightarrow> (\<forall>j\<ge>p. (\<forall>k. p \<le> k \<and> k < j \<longrightarrow> c_at path k \<noteq> CHR 0x00) \<longrightarrow> \<not> dotdot_at path j)"
        (is "?L \<longleftrightarrow> ?R")
      proof
        assume L: ?L
        show ?R
        proof (intro allI impI)
          fix j assume "p \<le> j" and nn: "\<forall>k. p \<le> k \<and> k < j \<longrightarrow> c_at path k \<noteq> CHR 0x00"
          show "\<not> dotdot_at path j"
          proof (cases "j = p")
            case True with nd show ?thesis by simp
          next
            case False
            with \<open>p \<le> j\<close> have "p + 1 \<le> j" by simp
            moreover have "\<forall>k. p + 1 \<le> k \<and> k < j \<longrightarrow> c_at path k \<noteq> CHR 0x00"
              using nn by auto
            ultimately show ?thesis using L by blast
          qed
        qed
      next
        assume R: ?R
        show ?L
        proof (intro allI impI)
          fix j assume "p + 1 \<le> j" and nn: "\<forall>k. p + 1 \<le> k \<and> k < j \<longrightarrow> c_at path k \<noteq> CHR 0x00"
          have "\<forall>k. p \<le> k \<and> k < j \<longrightarrow> c_at path k \<noteq> CHR 0x00"
          proof (intro allI impI)
            fix k assume "p \<le> k \<and> k < j"
            then show "c_at path k \<noteq> CHR 0x00"
              using nn nz by (cases "k = p") auto
          qed
          with R \<open>p + 1 \<le> j\<close> show "\<not> dotdot_at path j" by simp
        qed
      qed
      with step ih show ?thesis by simp
    qed
  qed
qed

lemma dotdot_in_middle:
  assumes bnd_l: "pre = [] \<or> last pre = CHR ''/'' \<or> last pre = CHR 0x5C"
      and bnd_r: "post = [] \<or> hd post = CHR ''/'' \<or> hd post = CHR 0x5C"
  shows "dotdot_at (pre @ ''..'' @ post) (length pre)"
proof -
  have a: "c_at (pre @ ''..'' @ post) (length pre) = CHR ''.''"
    by (simp add: c_at_def nth_append)
  have b: "c_at (pre @ ''..'' @ post) (length pre + 1) = CHR ''.''"
    by (simp add: c_at_def nth_append)
  have c: "length pre = 0 \<or> c_at (pre @ ''..'' @ post) (length pre - 1) = CHR ''/''
            \<or> c_at (pre @ ''..'' @ post) (length pre - 1) = CHR 0x5C"
  proof (cases "pre = []")
    case True then show ?thesis by simp
  next
    case False
    then have "c_at (pre @ ''..'' @ post) (length pre - 1) = last pre"
      by (cases pre rule: rev_cases) (simp_all add: c_at_def nth_append)
    with bnd_l False show ?thesis by simp
  qed
  have d: "c_at (pre @ ''..'' @ post) (length pre + 2) = CHR 0x00
            \<or> c_at (pre @ ''..'' @ post) (length pre + 2) = CHR ''/''
            \<or> c_at (pre @ ''..'' @ post) (length pre + 2) = CHR 0x5C"
  proof (cases post)
    case Nil then show ?thesis by (simp add: c_at_def)
  next
    case (Cons x xs)
    then have "c_at (pre @ ''..'' @ post) (length pre + 2) = hd post"
      by (simp add: c_at_def nth_append)
    with bnd_r Cons show ?thesis by simp
  qed
  from a b c d show ?thesis unfolding dotdot_at_def by blast
qed

lemma path_scan_rejects:
  assumes "CHR 0x00 \<notin> set pre"
      and "pre = [] \<or> last pre = CHR ''/'' \<or> last pre = CHR 0x5C"
      and "post = [] \<or> hd post = CHR ''/'' \<or> hd post = CHR 0x5C"
  shows "\<not> path_scan (pre @ ''..'' @ post) 0"
proof -
  have "\<forall>k. 0 \<le> k \<and> k < length pre \<longrightarrow> c_at (pre @ ''..'' @ post) k \<noteq> CHR 0x00"
    using assms(1) by (auto simp: c_at_def nth_append) (metis nth_mem)
  moreover have "dotdot_at (pre @ ''..'' @ post) (length pre)"
    using assms(2,3) by (rule dotdot_in_middle)
  ultimately show ?thesis
    unfolding path_scan_iff [of _ 0] by blast
qed

text \<open>
  Claim C1.  \<open>isPathSafe\<close> accepts the null and the empty path; it rejects every path
  beginning with \<open>/\<close>, every path whose first character is an ASCII letter followed by
  \<open>:\<close>, and every path \<open>pre @ ''..'' @ post\<close> in which the \<open>..\<close> is bounded on the left by
  the start of the string or a separator (slash or backslash) and on the right by the end
  of the string or a separator, wherever it stands in the string (\<open>pre\<close> holds no NUL byte,
  being part of a C string).  The six examples of the specification evaluate as stated.
\<close>

theorem isPathSafe_rejects:
  "isPathSafe None \<and> isPathSafe (Some '''')
   \<and> \<not> isPathSafe (Some (CHR ''/'' # rest))
   \<and> (is_ascii_letter c \<longrightarrow> \<not> isPathSafe (Some (c # CHR '':'' # rest')))
   \<and> (CHR 0x00 \<notin> set pre \<and> (pre = [] \<or> last pre = CHR ''/'' \<or> last pre = CHR 0x5C)
        \<and> (post = [] \<or> hd post = CHR ''/'' \<or> hd post = CHR 0x5C)
       \<longrightarrow> \<not> isPathSafe (Some (pre @ ''..'' @ post)))
   \<and> isPathSafe (Some ''/etc/passwd'') = False
   \<and> isPathSafe (Some ''../../x'') = False
   \<and> isPathSafe (Some ''a/../../b'') = False
   \<and> isPathSafe (Some ''a/b/c'') = True
   \<and> isPathSafe (Some [CHR ''C'', CHR '':'', CHR 0x5C, CHR ''x'']) = False"
proof -
  have e0: "isPathSafe None \<and> isPathSafe (Some '''')"
    by (simp add: isPathSafe_def c_at_def)
  have e1: "\<not> isPathSafe (Some (CHR ''/'' # rest))"
    by (simp add: isPathSafe_def c_at_def)
  have e2: "is_ascii_letter c \<longrightarrow> \<not> isPathSafe (Some (c # CHR '':'' # rest'))"
    by (cases "c = CHR 0x00") (simp_all add: isPathSafe_def c_at_def is_ascii_letter_def)
  have e3: "\<not> isPathSafe (Some (pre @ ''..'' @ post))"
    if "CHR 0x00 \<notin> set pre" "pre = [] \<or> last pre = CHR ''/'' \<or> last pre = CHR 0x5C"
       "post = [] \<or> hd post = CHR ''/'' \<or> hd post = CHR 0x5C"
  proof -
    have nz: "c_at (pre @ ''..'' @ post) 0 \<noteq> CHR 0x00"
      using that(1) by (cases pre) (auto simp: c_at_def)
    show ?thesis
      using path_scan_rejects [OF that] nz by (simp add: isPathSafe_def)
  qed
  have e4: "isPathSafe (Some ''/etc/passwd'') = False" by code_simp
  have e5: "isPathSafe (Some ''../../x'') = False" by code_simp
  have e6: "isPathSafe (Some ''a/../../b'') = False" by code_simp
  have e7: "isPathSafe (Some ''a/b/c'') = True" by code_simp
  have e8: "isPathSafe (Some [CHR ''C'', CHR '':'', CHR 0x5C, CHR ''x'']) = False" by code_simp
  from e0 e1 e2 e3 e4 e5 e6 e7 e8 show ?thesis by blast
qed


theorem isPathSafe_rejects_witness:
  "is_ascii_letter (CHR ''d'') \<and> \<not> isPathSafe (Some ''d:tmp'')
   \<and> CHR 0x00 \<notin> set ''dir/'' \<and> last ''dir/'' = CHR ''/'' \<and> hd ''/up'' = CHR ''/''
   \<and> \<not> isPathSafe (Some ''dir/../up'')"
  using isPathSafe_rejects [of "''''" "CHR ''d''" "''tmp''" "''dir/''" "''/up''"]
  by (simp add: is_ascii_letter_def)

section \<open>Properties of compression detection\<close>

lemma c_str_nul_free: "CHR 0x00 \<notin> set s \<Longrightarrow> c_str s = s"
  unfolding c_str_def by (rule takeWhile_eq_all_conv [THEN iffD2]) auto

lemma strlen_nul_free: "CHR 0x00 \<notin> set s \<Longrightarrow> strlen s = length s"
  by (simp add: strlen_def c_str_nul_free)

lemma has_suffix_iff_suffix: "has_suffix suf name \<longleftrightarrow> suffix suf name"
proof
  assume "has_suffix suf name"
  then have "name = take (length name - length suf) name @ suf"
    unfolding has_suffix_def by (metis append_take_drop_id)
  then show "suffix suf name" by (rule suffixI)
next
  assume "suffix suf name"
  then obtain zs where "name = zs @ suf" by (rule suffixE)
  then show "has_suffix suf name" by (simp add: has_suffix_def)
qed

lemma strcmp_suffix:
  assumes "CHR 0x00 \<notin> set f" and "CHR 0x00 \<notin> set suf"
  shows "(length f \<ge> length suf \<and> strcmp_eq (drop (length f - length suf) f) suf) \<longleftrightarrow> has_suffix suf f"
proof -
  have "CHR 0x00 \<notin> set (drop (length f - length suf) f)"
    using assms(1) by (meson in_set_dropD)
  then show ?thesis
    using assms(2) by (simp add: strcmp_eq_def c_str_nul_free has_suffix_def)
qed

lemma has_suffix_short: "length name < length suf \<Longrightarrow> \<not> has_suffix suf name"
  by (simp add: has_suffix_def)

lemma strcmp_suffix_k:
  assumes "CHR 0x00 \<notin> set f" and "CHR 0x00 \<notin> set suf" and "length suf = k"
  shows "(length f \<ge> k \<and> strcmp_eq (drop (length f - k) f) suf) = has_suffix suf f"
  using strcmp_suffix [OF assms(1,2)] assms(3) by simp

lemma detect_eq_table:
  assumes "CHR 0x00 \<notin> set f"
  shows "detect_compression_from_filename (Some f) = detect_by_suffix_table f"
proof -
  note s = strcmp_suffix_k [OF assms]
  have t1: "(length f \<ge> 7 \<and> strcmp_eq (drop (length f - 7) f) ''.tar.gz'') = has_suffix ''.tar.gz'' f"
    by (rule s) simp_all
  have t2: "(length f \<ge> 4 \<and> strcmp_eq (drop (length f - 4) f) ''.tgz'') = has_suffix ''.tgz'' f"
    by (rule s) simp_all
  have t3: "(length f \<ge> 8 \<and> strcmp_eq (drop (length f - 8) f) ''.tar.bz2'') = has_suffix ''.tar.bz2'' f"
    by (rule s) simp_all
  have t4: "(length f \<ge> 5 \<and> strcmp_eq (drop (length f - 5) f) ''.tbz2'') = has_suffix ''.tbz2'' f"
    by (rule s) simp_all
  have t5: "(length f \<ge> 4 \<and> strcmp_eq (drop (length f - 4) f) ''.tbz'') = has_suffix ''.tbz'' f"
    by (rule s) simp_all
  have t6: "(length f \<ge> 7 \<and> strcmp_eq (drop (length f - 7) f) ''.tar.xz'') = has_suffix ''.tar.xz'' f"
    by (rule s) simp_all
  have t7: "(length f \<ge> 4 \<and> strcmp_eq (drop (length f - 4) f) ''.txz'') = has_suffix ''.txz'' f"
    by (rule s) simp_all
  have t8: "(length f \<ge> 8 \<and> strcmp_eq (drop (length f - 8) f) ''.tar.zst'') = has_suffix ''.tar.zst'' f"
    by (rule s) simp_all
  have t9: "(length f \<ge> 9 \<and> strcmp_eq (drop (length f - 9) f) ''.tar.zstd'') = has_suffix ''.tar.zstd'' f"
    by (rule s) simp_all
  have t10: "(length f \<ge> 8 \<and> strcmp_eq (drop (length f - 8) f) ''.tar.lz4'') = has_suffix ''.tar.lz4'' f"
    by (rule s) simp_all
  note t = t1 t2 t3 t4 t5 t6 t7 t8 t9 t10
  show ?thesis
  proof (cases "length f < 4")
    case True
    then have "\<not> has_suffix ''.tar.gz'' f" "\<not> has_suffix ''.tgz'' f" "\<not> has_suffix ''.tar.bz2'' f"
      "\<not> has_suffix ''.tbz2'' f" "\<not> has_suffix ''.tbz'' f" "\<not> has_suffix ''.tar.xz'' f"
      "\<not> has_suffix ''.txz'' f" "\<not> has_suffix ''.tar.zst'' f" "\<not> has_suffix ''.tar.zstd'' f"
      "\<not> has_suffix ''.tar.lz4'' f"
      by (simp_all add: has_suffix_short)
    then show ?thesis using True
      by (simp add: detect_compression_from_filename_def detect_by_suffix_table_def
          strlen_nul_free [OF assms])
  next
    case False
    then show ?thesis
      unfolding detect_compression_from_filename_def detect_by_suffix_table_def
      by (simp only: option.case Let_def strlen_nul_free [OF assms] t if_False if_cancel)
        (simp)
  qed
qed



lemma has_suffix_shorter:
  assumes "has_suffix a n" and "has_suffix b n" and "length a \<le> length b"
  shows "has_suffix a b"
proof -
  from assms(1) obtain u where u: "n = u @ a" unfolding has_suffix_iff_suffix by (rule suffixE)
  from assms(2) obtain v where v: "n = v @ b" unfolding has_suffix_iff_suffix by (rule suffixE)
  from u v assms(3) have "suffix a b"
    by (metis suffix_def suffix_same_cases suffix_length_le le_antisym suffix_order.eq_iff
        suffix_length_suffix)
  then show ?thesis by (simp add: has_suffix_iff_suffix)
qed

lemma has_suffix_excl:
  assumes "has_suffix a n" and "list_all (suffix_clash a) bs" and "b \<in> set bs"
  shows "\<not> has_suffix b n"
proof
  assume b: "has_suffix b n"
  from assms(2,3) have c: "suffix_clash a b" by (simp add: list_all_iff)
  show False
  proof (cases "length a \<le> length b")
    case True
    with has_suffix_shorter [OF assms(1) b] c show False by (simp add: suffix_clash_def)
  next
    case False
    then have "length b \<le> length a" by simp
    with has_suffix_shorter [OF b assms(1)] c False show False by (simp add: suffix_clash_def)
  qed
qed

lemma has_suffix_append:
  "length suf \<le> length name \<Longrightarrow> has_suffix suf (pre @ name) = has_suffix suf name"
  by (simp add: has_suffix_def)

lemma table_append:
  "9 \<le> length name \<Longrightarrow> detect_by_suffix_table (pre @ name) = detect_by_suffix_table name"
  unfolding detect_by_suffix_table_def by (simp add: has_suffix_append)

lemma table_gzip:
  "has_suffix ''.tar.gz'' name \<or> has_suffix ''.tgz'' name \<Longrightarrow> detect_by_suffix_table name = TAR_CM_GZIP"
  by (simp add: detect_by_suffix_table_def)

lemma clash_eval:
  "list_all (suffix_clash ''.tar.bz2'') [''.tar.gz'', ''.tgz'']"
  "list_all (suffix_clash ''.tbz2'') [''.tar.gz'', ''.tgz'']"
  "list_all (suffix_clash ''.tbz'') [''.tar.gz'', ''.tgz'']"
  "list_all (suffix_clash ''.tar.xz'') [''.tar.gz'', ''.tgz'', ''.tar.bz2'', ''.tbz2'', ''.tbz'']"
  "list_all (suffix_clash ''.txz'') [''.tar.gz'', ''.tgz'', ''.tar.bz2'', ''.tbz2'', ''.tbz'']"
  "list_all (suffix_clash ''.tar.zst'')
     [''.tar.gz'', ''.tgz'', ''.tar.bz2'', ''.tbz2'', ''.tbz'', ''.tar.xz'', ''.txz'']"
  "list_all (suffix_clash ''.tar.zstd'')
     [''.tar.gz'', ''.tgz'', ''.tar.bz2'', ''.tbz2'', ''.tbz'', ''.tar.xz'', ''.txz'']"
  "list_all (suffix_clash ''.tar.lz4'')
     [''.tar.gz'', ''.tgz'', ''.tar.bz2'', ''.tbz2'', ''.tbz'', ''.tar.xz'', ''.txz'',
      ''.tar.zst'', ''.tar.zstd'']"
  "list_all (suffix_clash ''.tar'')
     [''.tar.gz'', ''.tgz'', ''.tar.bz2'', ''.tbz2'', ''.tbz'', ''.tar.xz'', ''.txz'',
      ''.tar.zst'', ''.tar.zstd'', ''.tar.lz4'']"
  by (simp_all add: suffix_clash_def has_suffix_def)

lemma table_bzip2:
  assumes "has_suffix ''.tar.bz2'' name \<or> has_suffix ''.tbz2'' name \<or> has_suffix ''.tbz'' name"
  shows "detect_by_suffix_table name = TAR_CM_BZIP2"
proof -
  have "\<forall>b \<in> set [''.tar.gz'', ''.tgz'']. \<not> has_suffix b name"
    using assms has_suffix_excl [OF _ clash_eval(1)] has_suffix_excl [OF _ clash_eval(2)]
      has_suffix_excl [OF _ clash_eval(3)] by blast
  with assms show ?thesis by (simp add: detect_by_suffix_table_def)
qed

lemma table_xz:
  assumes "has_suffix ''.tar.xz'' name \<or> has_suffix ''.txz'' name"
  shows "detect_by_suffix_table name = TAR_CM_XZ"
proof -
  have "\<forall>b \<in> set [''.tar.gz'', ''.tgz'', ''.tar.bz2'', ''.tbz2'', ''.tbz'']. \<not> has_suffix b name"
    using assms has_suffix_excl [OF _ clash_eval(4)] has_suffix_excl [OF _ clash_eval(5)] by blast
  with assms show ?thesis by (simp add: detect_by_suffix_table_def)
qed

lemma table_zstd:
  assumes "has_suffix ''.tar.zst'' name \<or> has_suffix ''.tar.zstd'' name"
  shows "detect_by_suffix_table name = TAR_CM_ZSTD"
proof -
  have "\<forall>b \<in> set [''.tar.gz'', ''.tgz'', ''.tar.bz2'', ''.tbz2'', ''.tbz'', ''.tar.xz'', ''.txz''].
          \<not> has_suffix b name"
    using assms has_suffix_excl [OF _ clash_eval(6)] has_suffix_excl [OF _ clash_eval(7)] by blast
  with assms show ?thesis by (simp add: detect_by_suffix_table_def)
qed

lemma table_lz4:
  assumes "has_suffix ''.tar.lz4'' name"
  shows "detect_by_suffix_table name = TAR_CM_LZ4"
proof -
  have "\<forall>b \<in> set [''.tar.gz'', ''.tgz'', ''.tar.bz2'', ''.tbz2'', ''.tbz'', ''.tar.xz'', ''.txz'',
      ''.tar.zst'', ''.tar.zstd'']. \<not> has_suffix b name"
    using assms has_suffix_excl [OF _ clash_eval(8)] by blast
  with assms show ?thesis by (simp add: detect_by_suffix_table_def)
qed

lemma table_tar:
  assumes "has_suffix ''.tar'' name"
  shows "detect_by_suffix_table name = TAR_CM_NONE"
proof -
  have "\<forall>b \<in> set [''.tar.gz'', ''.tgz'', ''.tar.bz2'', ''.tbz2'', ''.tbz'', ''.tar.xz'', ''.txz'',
      ''.tar.zst'', ''.tar.zstd'', ''.tar.lz4'']. \<not> has_suffix b name"
    using assms has_suffix_excl [OF _ clash_eval(9)] by blast
  then show ?thesis by (simp add: detect_by_suffix_table_def)
qed

lemma table_none:
  assumes "\<forall>b \<in> set [''.tar.gz'', ''.tgz'', ''.tar.bz2'', ''.tbz2'', ''.tbz'', ''.tar.xz'', ''.txz'',
      ''.tar.zst'', ''.tar.zstd'', ''.tar.lz4'']. \<not> has_suffix b name"
  shows "detect_by_suffix_table name = TAR_CM_NONE"
  using assms by (simp add: detect_by_suffix_table_def)

lemma table_short: "length name < 4 \<Longrightarrow> detect_by_suffix_table name = TAR_CM_NONE"
  by (simp add: detect_by_suffix_table_def has_suffix_def)

text \<open>
  Claim C9.  For a filename (a C string, so without NUL bytes) the detected compression
  depends on the suffix alone: \<open>.tar.gz\<close> and \<open>.tgz\<close> give gzip; \<open>.tar.bz2\<close>, \<open>.tbz2\<close> and
  \<open>.tbz\<close> give bzip2; \<open>.tar.xz\<close> and \<open>.txz\<close> give xz; \<open>.tar.zst\<close> and \<open>.tar.zstd\<close> give
  zstd; \<open>.tar.lz4\<close> gives lz4; \<open>.tar\<close>, every name with none of the listed suffixes and
  every name shorter than four characters give no compression.  Prefixing a name of at
  least nine characters (the longest suffix) changes nothing, and the function agrees
  with the suffix table of the specification.
\<close>

theorem detect_compression_by_suffix:
  assumes "CHR 0x00 \<notin> set name"
  shows
    "(suffix ''.tar.gz'' name \<or> suffix ''.tgz'' name
        \<longrightarrow> detect_compression_from_filename (Some name) = TAR_CM_GZIP)
     \<and> (suffix ''.tar.bz2'' name \<or> suffix ''.tbz2'' name \<or> suffix ''.tbz'' name
        \<longrightarrow> detect_compression_from_filename (Some name) = TAR_CM_BZIP2)
     \<and> (suffix ''.tar.xz'' name \<or> suffix ''.txz'' name
        \<longrightarrow> detect_compression_from_filename (Some name) = TAR_CM_XZ)
     \<and> (suffix ''.tar.zst'' name \<or> suffix ''.tar.zstd'' name
        \<longrightarrow> detect_compression_from_filename (Some name) = TAR_CM_ZSTD)
     \<and> (suffix ''.tar.lz4'' name
        \<longrightarrow> detect_compression_from_filename (Some name) = TAR_CM_LZ4)
     \<and> (suffix ''.tar'' name
        \<longrightarrow> detect_compression_from_filename (Some name) = TAR_CM_NONE)
     \<and> ((\<forall>suf \<in> set [''.tar.gz'', ''.tgz'', ''.tar.bz2'', ''.tbz2'', ''.tbz'', ''.tar.xz'',
                       ''.txz'', ''.tar.zst'', ''.tar.zstd'', ''.tar.lz4'']. \<not> suffix suf name)
        \<longrightarrow> detect_compression_from_filename (Some name) = TAR_CM_NONE)
     \<and> (length name < 4 \<longrightarrow> detect_compression_from_filename (Some name) = TAR_CM_NONE)
     \<and> (CHR 0x00 \<notin> set pre \<and> 9 \<le> length name
        \<longrightarrow> detect_compression_from_filename (Some (pre @ name))
            = detect_compression_from_filename (Some name))
     \<and> detect_compression_from_filename (Some name) = detect_by_suffix_table name"
proof -
  note eq = detect_eq_table [OF assms]
  note sf = has_suffix_iff_suffix [symmetric]
  have c1: "suffix ''.tar.gz'' name \<or> suffix ''.tgz'' name
        \<longrightarrow> detect_compression_from_filename (Some name) = TAR_CM_GZIP"
    unfolding eq sf using table_gzip by blast
  have c2: "suffix ''.tar.bz2'' name \<or> suffix ''.tbz2'' name \<or> suffix ''.tbz'' name
        \<longrightarrow> detect_compression_from_filename (Some name) = TAR_CM_BZIP2"
    unfolding eq sf using table_bzip2 by blast
  have c3: "suffix ''.tar.xz'' name \<or> suffix ''.txz'' name
        \<longrightarrow> detect_compression_from_filename (Some name) = TAR_CM_XZ"
    unfolding eq sf using table_xz by blast
  have c4: "suffix ''.tar.zst'' name \<or> suffix ''.tar.zstd'' name
        \<longrightarrow> detect_compression_from_filename (Some name) = TAR_CM_ZSTD"
    unfolding eq sf using table_zstd by blast
  have c5: "suffix ''.tar.lz4'' name
        \<longrightarrow> detect_compression_from_filename (Some name) = TAR_CM_LZ4"
    unfolding eq sf using table_lz4 by blast
  have c6: "suffix ''.tar'' name
        \<longrightarrow> detect_compression_from_filename (Some name) = TAR_CM_NONE"
    unfolding eq sf using table_tar by blast
  have c7: "(\<forall>suf \<in> set [''.tar.gz'', ''.tgz'', ''.tar.bz2'', ''.tbz2'', ''.tbz'', ''.tar.xz'',
                       ''.txz'', ''.tar.zst'', ''.tar.zstd'', ''.tar.lz4'']. \<not> suffix suf name)
        \<longrightarrow> detect_compression_from_filename (Some name) = TAR_CM_NONE"
    unfolding eq sf using table_none by blast
  have c8: "length name < 4 \<longrightarrow> detect_compression_from_filename (Some name) = TAR_CM_NONE"
    unfolding eq using table_short by blast
  have c9: "CHR 0x00 \<notin> set pre \<and> 9 \<le> length name
        \<longrightarrow> detect_compression_from_filename (Some (pre @ name))
            = detect_compression_from_filename (Some name)"
  proof
    assume h: "CHR 0x00 \<notin> set pre \<and> 9 \<le> length name"
    with assms have "CHR 0x00 \<notin> set (pre @ name)" by simp
    then have "detect_compression_from_filename (Some (pre @ name)) = detect_by_suffix_table (pre @ name)"
      by (rule detect_eq_table)
    with h eq show "detect_compression_from_filename (Some (pre @ name))
            = detect_compression_from_filename (Some name)"
      by (simp add: table_append)
  qed
  from c1 c2 c3 c4 c5 c6 c7 c8 c9 eq show ?thesis by (intro conjI)
qed

theorem detect_compression_by_suffix_witness:
  "detect_compression_from_filename (Some ''a.tgz'') = TAR_CM_GZIP
   \<and> detect_compression_from_filename (Some ''a.tbz2'') = TAR_CM_BZIP2
   \<and> detect_compression_from_filename (Some ''a.txz'') = TAR_CM_XZ
   \<and> detect_compression_from_filename (Some ''a.tar.zstd'') = TAR_CM_ZSTD
   \<and> detect_compression_from_filename (Some ''a.tar.lz4'') = TAR_CM_LZ4
   \<and> detect_compression_from_filename (Some ''a.tar'') = TAR_CM_NONE
   \<and> detect_compression_from_filename (Some ''archive.zip'') = TAR_CM_NONE
   \<and> detect_compression_from_filename (Some ''tgz'') = TAR_CM_NONE
   \<and> detect_compression_from_filename (Some (''dir/'' @ ''data.tar.gz''))
       = detect_compression_from_filename (Some ''data.tar.gz'')"
proof -
  note sf = has_suffix_iff_suffix [symmetric]
  have n: "CHR 0x00 \<notin> set ''a.tgz''" "CHR 0x00 \<notin> set ''a.tbz2''" "CHR 0x00 \<notin> set ''a.txz''"
    "CHR 0x00 \<notin> set ''a.tar.zstd''" "CHR 0x00 \<notin> set ''a.tar.lz4''" "CHR 0x00 \<notin> set ''a.tar''"
    "CHR 0x00 \<notin> set ''archive.zip''" "CHR 0x00 \<notin> set ''tgz''" "CHR 0x00 \<notin> set ''data.tar.gz''"
    by simp_all
  have w1: "detect_compression_from_filename (Some ''a.tgz'') = TAR_CM_GZIP"
    using detect_compression_by_suffix [OF n(1)] by (simp add: sf has_suffix_def)
  have w2: "detect_compression_from_filename (Some ''a.tbz2'') = TAR_CM_BZIP2"
    using detect_compression_by_suffix [OF n(2)] by (simp add: sf has_suffix_def)
  have w3: "detect_compression_from_filename (Some ''a.txz'') = TAR_CM_XZ"
    using detect_compression_by_suffix [OF n(3)] by (simp add: sf has_suffix_def)
  have w4: "detect_compression_from_filename (Some ''a.tar.zstd'') = TAR_CM_ZSTD"
    using detect_compression_by_suffix [OF n(4)] by (simp add: sf has_suffix_def)
  have w5: "detect_compression_from_filename (Some ''a.tar.lz4'') = TAR_CM_LZ4"
    using detect_compression_by_suffix [OF n(5)] by (simp add: sf has_suffix_def)
  have w6: "detect_compression_from_filename (Some ''a.tar'') = TAR_CM_NONE"
    using detect_compression_by_suffix [OF n(6)] by (simp add: sf has_suffix_def)
  have w7: "detect_compression_from_filename (Some ''archive.zip'') = TAR_CM_NONE"
    using detect_compression_by_suffix [OF n(7)] by (simp add: sf has_suffix_def)
  have w8: "detect_compression_from_filename (Some ''tgz'') = TAR_CM_NONE"
    using detect_compression_by_suffix [OF n(8)] by simp
  have w9: "detect_compression_from_filename (Some (''dir/'' @ ''data.tar.gz''))
       = detect_compression_from_filename (Some ''data.tar.gz'')"
    using detect_compression_by_suffix [OF n(9), of "''dir/''"] by simp
  from w1 w2 w3 w4 w5 w6 w7 w8 w9 show ?thesis by (intro conjI)
qed

section \<open>Properties of the metadata record\<close>

lemma filetype_str_values:
  "filetype_str AE_IFREG = ''file''" "filetype_str AE_IFDIR = ''directory''"
  "filetype_str AE_IFLNK = ''symlink''" "filetype_str AE_IFCHR = ''chardev''"
  "filetype_str AE_IFBLK = ''blockdev''" "filetype_str AE_IFIFO = ''fifo''"
  "filetype_str AE_IFSOCK = ''socket''"
  by (simp_all add: filetype_str_def AE_IFREG_def AE_IFDIR_def AE_IFLNK_def AE_IFCHR_def
      AE_IFBLK_def AE_IFIFO_def AE_IFSOCK_def)

lemma filetype_str_unknown:
  "ft \<notin> {AE_IFREG, AE_IFDIR, AE_IFLNK, AE_IFCHR, AE_IFBLK, AE_IFIFO, AE_IFSOCK}
   \<Longrightarrow> filetype_str ft = ''unknown''"
  by (simp add: filetype_str_def)

lemma filetype_str_not_hardlink: "filetype_str ft \<noteq> ''hardlink''"
  by (simp add: filetype_str_def)

lemma nonempty_target_Some:
  "t \<noteq> [] \<Longrightarrow> CHR 0x00 \<notin> set t \<Longrightarrow> nonempty_target (Some t)"
  by (cases t) (auto simp: nonempty_target_def c_at_def)

lemma nonempty_target_empty: "\<not> nonempty_target None" "\<not> nonempty_target (Some [])"
  by (simp_all add: nonempty_target_def c_at_def)

text \<open>
  Claim C10.  The \<open>is_hardlink\<close> flag of the metadata record is true exactly when the entry's
  hardlink target is present; an entry whose hardlink target is present but empty has the
  flag set while its type is not \<open>hardlink\<close>, so flag and type disagree.
\<close>

theorem is_hardlink_flag_disagrees:
  "i_is_hardlink (createEntryInfo e) = (ae_hardlink e \<noteq> None)
   \<and> (ae_hardlink e = Some []
      \<longrightarrow> i_is_hardlink (createEntryInfo e) \<and> i_type (createEntryInfo e) \<noteq> ''hardlink'')"
proof -
  have a: "i_is_hardlink (createEntryInfo e) = (ae_hardlink e \<noteq> None)"
    by (simp add: createEntryInfo_def Let_def)
  have b: "i_type (createEntryInfo e) = filetype_str (ae_filetype e)" if "ae_hardlink e = Some []"
    using that nonempty_target_empty by (simp add: createEntryInfo_def Let_def)
  from a b filetype_str_not_hardlink show ?thesis by auto
qed

theorem is_hardlink_flag_disagrees_witness:
  "ae_hardlink (sample_entry\<lparr>ae_hardlink := Some []\<rparr>) = Some []
   \<and> i_is_hardlink (createEntryInfo (sample_entry\<lparr>ae_hardlink := Some []\<rparr>))
   \<and> i_type (createEntryInfo (sample_entry\<lparr>ae_hardlink := Some []\<rparr>)) = ''file''"
  using is_hardlink_flag_disagrees [of "sample_entry\<lparr>ae_hardlink := Some []\<rparr>"]
  by (simp add: createEntryInfo_def Let_def nonempty_target_def c_at_def sample_entry_def
      filetype_str_def)

section \<open>Properties of the read adapter\<close>









section \<open>Properties of the write adapter\<close>

lemma write_open:
  "\<not> os_closed s \<Longrightarrow>
     TarOutputStream_write s ptr count = (s\<lparr> os_buffer := os_buffer s @ take (nat count) ptr \<rparr>, [])"
  by (simp add: TarOutputStream_write_def)

lemma write_all_open:
  "\<not> os_closed s \<Longrightarrow>
     write_all s ws = (s\<lparr> os_buffer := os_buffer s @ written_bytes ws \<rparr>, [])"
proof (induction ws arbitrary: s)
  case Nil
  then show ?case by (simp add: written_bytes_def)
next
  case (Cons w ws)
  obtain ptr count where w: "w = (ptr, count)" by (cases w)
  let ?s1 = "s\<lparr> os_buffer := os_buffer s @ take (nat count) ptr \<rparr>"
  have "\<not> os_closed ?s1" using Cons.prems by simp
  from Cons.IH [OF this] write_open [OF Cons.prems, of ptr count] show ?case
    by (simp add: w written_bytes_def)
qed

lemma written_length:
  "\<forall>(ptr, count) \<in> set ws. count \<le> int (length ptr) \<Longrightarrow>
     int (length (written_bytes ws)) = written_count ws"
proof (induction ws)
  case Nil
  then show ?case by (simp add: written_bytes_def written_count_def)
next
  case (Cons w ws)
  obtain ptr count where w: "w = (ptr, count)" by (cases w)
  from Cons.prems w have c: "count \<le> int (length ptr)" by simp
  then have "int (length (take (nat count) ptr)) = max 0 count" by auto
  moreover have "int (length (written_bytes ws)) = written_count ws"
    using Cons by simp
  ultimately show ?case
    by (simp add: w written_bytes_def written_count_def)
qed

lemma close_closed: "os_closed s \<Longrightarrow> TarOutputStream_close P s = (s, [])"
  by (simp add: TarOutputStream_close_def)

lemma close_closes: "os_closed (fst (TarOutputStream_close P s))"
  by (auto simp: TarOutputStream_close_def Let_def split: prod.splits)

lemma close_twice:
  "TarOutputStream_close P' (fst (TarOutputStream_close P s)) = (fst (TarOutputStream_close P s), [])"
  by (rule close_closed) (rule close_closes)

lemma close_emits:
  assumes "\<not> os_closed s" "p_entry_new P"
      and "wa_ret (p_write_header P (w_calls (os_archive s)) (close_header P s)) = ARCHIVE_OK"
  shows "w_calls (os_archive (fst (TarOutputStream_close P s)))
           = w_calls (os_archive s) @ WriteHeader (close_header P s)
               # (if os_buffer s = [] then [] else [WriteData (os_buffer s)])"
    and "os_buffer (fst (TarOutputStream_close P s)) = []"
  using assms
  by (simp_all add: TarOutputStream_close_def Let_def close_header_def archive_write_header_def
      archive_write_data_def split: prod.splits)

text \<open>
  Claim C5.  On a newly opened write adapter, a sequence of \<open>write\<close> calls (each with at
  least \<open>count\<close> bytes behind its pointer) raises nothing, leaves the write coder exactly as
  it was and only appends the bytes to the buffer, the stream staying open.  The first
  \<open>close\<close>, when the provider allocates the entry and accepts the header, makes two calls on
  the coder and no more: one header of a regular file under the stream's name, whose
  size is the number of bytes written over all \<open>write\<close> calls, and then the payload in one
  piece (no payload call when nothing was written); the buffer is released.  A second
  \<open>close\<close> raises nothing and changes nothing.
\<close>

theorem deferred_header:
  assumes "\<forall>(ptr, count) \<in> set ws. count \<le> int (length ptr)"
      and "s0 = TarOutputStream_new a name mode"
      and "s1 = fst (write_all s0 ws)"
      and "s2 = fst (TarOutputStream_close P s1)"
  shows
    "write_all s0 ws = (s0\<lparr> os_buffer := written_bytes ws \<rparr>, [])
     \<and> os_archive s1 = a \<and> \<not> os_closed s1
     \<and> int (length (os_buffer s1)) = written_count ws
     \<and> (p_entry_new P \<and> wa_ret (p_write_header P (w_calls a) (close_header P s1)) = ARCHIVE_OK
        \<longrightarrow> w_calls (os_archive s2)
              = w_calls a @ WriteHeader (close_header P s1)
                  # (if written_bytes ws = [] then [] else [WriteData (written_bytes ws)])
            \<and> ae_size (close_header P s1) = written_count ws
            \<and> ae_filetype (close_header P s1) = AE_IFREG
            \<and> ae_pathname (close_header P s1) = c_str name
            \<and> os_buffer s2 = [])
     \<and> TarOutputStream_close P' s2 = (s2, [])"
proof -
  have o0: "\<not> os_closed s0" and b0: "os_buffer s0 = []" and a0: "os_archive s0 = a"
    and n0: "os_entry_name s0 = c_str name"
    by (simp_all add: assms(2) TarOutputStream_new_def)
  have w: "write_all s0 ws = (s0\<lparr> os_buffer := written_bytes ws \<rparr>, [])"
    using write_all_open [OF o0, of ws] b0 by simp
  then have s1: "s1 = s0\<lparr> os_buffer := written_bytes ws \<rparr>"
    using assms(3) by simp
  have o1: "\<not> os_closed s1" and a1: "os_archive s1 = a" and b1: "os_buffer s1 = written_bytes ws"
    and n1: "os_entry_name s1 = c_str name"
    using o0 a0 n0 by (simp_all add: s1)
  have len: "int (length (os_buffer s1)) = written_count ws"
    using written_length [OF assms(1)] b1 by simp
  have cl: "p_entry_new P \<and> wa_ret (p_write_header P (w_calls a) (close_header P s1)) = ARCHIVE_OK
        \<longrightarrow> w_calls (os_archive s2)
              = w_calls a @ WriteHeader (close_header P s1)
                  # (if written_bytes ws = [] then [] else [WriteData (written_bytes ws)])
            \<and> ae_size (close_header P s1) = written_count ws
            \<and> ae_filetype (close_header P s1) = AE_IFREG
            \<and> ae_pathname (close_header P s1) = c_str name
            \<and> os_buffer s2 = []"
  proof
    assume g: "p_entry_new P \<and> wa_ret (p_write_header P (w_calls a) (close_header P s1)) = ARCHIVE_OK"
    then have g1: "p_entry_new P"
      and g2: "wa_ret (p_write_header P (w_calls (os_archive s1)) (close_header P s1)) = ARCHIVE_OK"
      by (simp_all add: a1)
    have h1: "w_calls (os_archive s2)
              = w_calls a @ WriteHeader (close_header P s1)
                  # (if written_bytes ws = [] then [] else [WriteData (written_bytes ws)])"
      using close_emits(1) [OF o1 g1 g2] by (simp add: assms(4) a1 b1)
    have h2: "os_buffer s2 = []"
      using close_emits(2) [OF o1 g1 g2] by (simp add: assms(4))
    have h3: "ae_size (close_header P s1) = written_count ws"
      using len by (simp add: close_header_def)
    have h4: "ae_filetype (close_header P s1) = AE_IFREG"
      by (simp add: close_header_def)
    have h5: "ae_pathname (close_header P s1) = c_str name"
      by (simp add: close_header_def n1 c_str_def)
    from h1 h2 h3 h4 h5 show "w_calls (os_archive s2)
              = w_calls a @ WriteHeader (close_header P s1)
                  # (if written_bytes ws = [] then [] else [WriteData (written_bytes ws)])
            \<and> ae_size (close_header P s1) = written_count ws
            \<and> ae_filetype (close_header P s1) = AE_IFREG
            \<and> ae_pathname (close_header P s1) = c_str name
            \<and> os_buffer s2 = []"
      by (intro conjI)
  qed
  have tw: "TarOutputStream_close P' s2 = (s2, [])"
    unfolding assms(4) by (rule close_twice)
  from w a1 o1 len cl tw show ?thesis by (intro conjI)
qed

theorem deferred_header_witness:
  "list_all (\<lambda>(ptr, count). count \<le> int (length ptr))
      [([1, 2, 3], 3), ([9, 9], 0), ([4, 5, 6, 7 :: byte], 2 :: int)]
   \<and> p_entry_new sample_provider
   \<and> (\<exists>s1 s2 hdr.
         write_all (TarOutputStream_new \<lparr> w_calls = [], w_pushed = [] \<rparr> ''a.txt'' 420)
            [([1, 2, 3], 3), ([9, 9], 0), ([4, 5, 6, 7], 2)] = (s1, [])
       \<and> w_calls (os_archive s1) = []
       \<and> os_buffer s1 = [1, 2, 3, 4, 5]
       \<and> TarOutputStream_close sample_provider s1 = (s2, [])
       \<and> w_calls (os_archive s2) = [WriteHeader hdr, WriteData [1, 2, 3, 4, 5]]
       \<and> ae_size hdr = 5 \<and> ae_filetype hdr = AE_IFREG \<and> ae_pathname hdr = ''a.txt''
       \<and> TarOutputStream_close sample_provider s2 = (s2, []))"
proof -
  define ws where "ws = [([1, 2, 3], 3), ([9, 9], 0), ([4, 5, 6, 7 :: byte], 2 :: int)]"
  define a where "a = \<lparr> w_calls = [], w_pushed = [] \<rparr>"
  define s0 where "s0 = TarOutputStream_new a ''a.txt'' 420"
  define s1 where "s1 = fst (write_all s0 ws)"
  define s2 where "s2 = fst (TarOutputStream_close sample_provider s1)"
  define hdr where "hdr = close_header sample_provider s1"
  have wf: "\<forall>(ptr, count) \<in> set ws. count \<le> int (length ptr)" by (simp add: ws_def)
  have pe: "p_entry_new sample_provider" by (simp add: sample_provider_def sample_provider_of_def)
  have ok: "wa_ret (p_write_header sample_provider (w_calls a) hdr) = ARCHIVE_OK"
    by (simp add: sample_provider_def sample_provider_of_def)
  have wb: "written_bytes ws = [1, 2, 3, 4, 5]" by (simp add: written_bytes_def ws_def)
  have wc: "written_count ws = 5" by (simp add: written_count_def ws_def)
  have nm: "c_str ''a.txt'' = ''a.txt''" by (simp add: c_str_def)
  note th = deferred_header [OF wf s0_def s1_def s2_def, of sample_provider, folded hdr_def]
  from th have w: "write_all s0 ws = (s0\<lparr> os_buffer := written_bytes ws \<rparr>, [])"
    by (rule conjunct1)
  then have s1: "s1 = s0\<lparr> os_buffer := [1, 2, 3, 4, 5] \<rparr>" by (simp add: s1_def wb)
  have x1: "write_all s0 ws = (s1, [])" using w s1 wb by simp
  from th have x2: "w_calls (os_archive s1) = []" by (simp add: a_def)
  have x3: "os_buffer s1 = [1, 2, 3, 4, 5]" by (simp add: s1)
  from th pe ok have "w_calls (os_archive s2)
              = w_calls a @ WriteHeader hdr
                  # (if written_bytes ws = [] then [] else [WriteData (written_bytes ws)])
            \<and> ae_size hdr = written_count ws
            \<and> ae_filetype hdr = AE_IFREG
            \<and> ae_pathname hdr = c_str ''a.txt''
            \<and> os_buffer s2 = []"
    by blast
  then have x4: "w_calls (os_archive s2) = [WriteHeader hdr, WriteData [1, 2, 3, 4, 5]]
     \<and> ae_size hdr = 5 \<and> ae_filetype hdr = AE_IFREG \<and> ae_pathname hdr = ''a.txt''"
    by (simp add: wb wc nm a_def)
  from th have x5: "TarOutputStream_close sample_provider s2 = (s2, [])" by blast
  have "snd (TarOutputStream_close sample_provider s1) = []"
    by (simp add: s1 s0_def TarOutputStream_close_def Let_def sample_provider_def sample_provider_of_def
        archive_write_header_def archive_write_data_def ARCHIVE_OK_def TarOutputStream_new_def
        split: prod.splits)
  then have x6: "TarOutputStream_close sample_provider s1 = (s2, [])"
    unfolding s2_def by (metis prod.collapse)
  have wf': "list_all (\<lambda>(ptr, count). count \<le> int (length ptr))
      [([1, 2, 3], 3), ([9, 9], 0), ([4, 5, 6, 7 :: byte], 2 :: int)]"
    by simp
  from x1 x2 x3 x4 x5 x6 have
    "\<exists>s1 s2 hdr. write_all s0 ws = (s1, [])
       \<and> w_calls (os_archive s1) = []
       \<and> os_buffer s1 = [1, 2, 3, 4, 5]
       \<and> TarOutputStream_close sample_provider s1 = (s2, [])
       \<and> w_calls (os_archive s2) = [WriteHeader hdr, WriteData [1, 2, 3, 4, 5]]
       \<and> ae_size hdr = 5 \<and> ae_filetype hdr = AE_IFREG \<and> ae_pathname hdr = ''a.txt''
       \<and> TarOutputStream_close sample_provider s2 = (s2, [])"
    by blast
  with wf' pe show ?thesis unfolding s0_def a_def ws_def by blast
qed

section \<open>Properties of toData\<close>

text \<open>
  Claim C8, as stated, fails: \<open>toData\<close> is guarded by the backing only.  On a memory-backed
  session in read mode, as the constructor from binary data builds it, it raises nothing
  and returns the buffer.
\<close>

theorem toData_read_session_counterexample:
  "tf_in_memory (memory_read_session [1, 2, 3] [])
   \<and> tf_mode (memory_read_session [1, 2, 3] []) = TAR_MODE_READ
   \<and> QoreTarFile_toData sample_provider (memory_read_session [1, 2, 3] [])
       = (memory_read_session [1, 2, 3] [], [], Some [1, 2, 3])"
  by (simp add: QoreTarFile_toData_def memory_read_session_def)

lemma toData_not_memory:
  "\<not> tf_in_memory s \<Longrightarrow>
     QoreTarFile_toData P s
       = (s, [tar_error ''cannot get binary data from file-based archive''], None)"
  by (simp add: QoreTarFile_toData_def)

lemma toData_finalizes:
  assumes "tf_in_memory s" "tf_mode s = TAR_MODE_WRITE" "tf_write_archive s = Some w"
  shows "QoreTarFile_toData P s
           = (s\<lparr> tf_memory_buffer := tf_memory_buffer s @ p_write_close P (w_calls w),
                  tf_write_archive := None \<rparr>,
              [], Some (tf_memory_buffer s @ p_write_close P (w_calls w)))"
  using assms by (simp add: QoreTarFile_toData_def close_writer_def push_backend_def Let_def)

lemma toData_plain:
  assumes "tf_in_memory s" "tf_mode s \<noteq> TAR_MODE_WRITE \<or> tf_write_archive s = None"
  shows "QoreTarFile_toData P s = (s, [], Some (tf_memory_buffer s))"
  using assms by (auto simp: QoreTarFile_toData_def Let_def)

text \<open>
  Claim C8, amended.  \<open>toData\<close> fails with a \<open>TAR-ERROR\<close> exactly on the sessions that are not
  memory-backed, whatever their mode.  On a memory-backed session it raises nothing: in
  write mode with the write coder still open it first closes that coder, whose last bytes
  reach the buffer, and drops it; it then returns a copy of the buffer.  In every other
  memory-backed case it returns a copy of the buffer and leaves the session as it was.
\<close>

theorem toData_memory_backed:
  "(\<not> tf_in_memory s \<longrightarrow>
       QoreTarFile_toData P s
         = (s, [tar_error ''cannot get binary data from file-based archive''], None))
   \<and> (tf_in_memory s \<and> tf_mode s = TAR_MODE_WRITE \<and> tf_write_archive s = Some w \<longrightarrow>
       QoreTarFile_toData P s
         = (s\<lparr> tf_memory_buffer := tf_memory_buffer s @ p_write_close P (w_calls w),
                tf_write_archive := None \<rparr>,
            [], Some (tf_memory_buffer s @ p_write_close P (w_calls w))))
   \<and> (tf_in_memory s \<and> (tf_mode s \<noteq> TAR_MODE_WRITE \<or> tf_write_archive s = None) \<longrightarrow>
       QoreTarFile_toData P s = (s, [], Some (tf_memory_buffer s)))"
  using toData_not_memory [of s P] toData_finalizes [of s w P] toData_plain [of s P]
  by blast

theorem toData_memory_backed_witness:
  "QoreTarFile_toData sample_provider (file_read_session ''a.tar'' [])
     = (file_read_session ''a.tar'' [],
        [(''TAR-ERROR'', ''cannot get binary data from file-based archive'')], None)
   \<and> QoreTarFile_toData (sample_provider\<lparr> p_write_close := (\<lambda>h. [0, 0]) \<rparr>)
        (memory_write_session [7, 8])
     = ((memory_write_session [7, 8])\<lparr> tf_memory_buffer := [7, 8, 0, 0], tf_write_archive := None \<rparr>,
        [], Some [7, 8, 0, 0])
   \<and> QoreTarFile_toData sample_provider (memory_read_session [4, 5] [])
     = (memory_read_session [4, 5] [], [], Some [4, 5])"
  using toData_memory_backed [of "file_read_session ''a.tar'' []" sample_provider "\<lparr> w_calls = [], w_pushed = [] \<rparr>"]
    toData_memory_backed [of "memory_write_session [7, 8]"
       "sample_provider\<lparr> p_write_close := (\<lambda>h. [0, 0]) \<rparr>" "\<lparr> w_calls = [], w_pushed = [7, 8] \<rparr>"]
    toData_memory_backed [of "memory_read_session [4, 5] []" sample_provider "\<lparr> w_calls = [], w_pushed = [] \<rparr>"]
  by (simp add: file_read_session_def memory_write_session_def memory_read_session_def
      tar_error_def)

section \<open>Operations on a closed session\<close>

lemma checkOpen_closed: "tf_closed s \<Longrightarrow> checkOpen s fw = Some (tar_error ''archive is closed'')"
  by (simp add: checkOpen_def)

lemma close_closed_session: "tf_closed s \<Longrightarrow> QoreTarFile_close P s = (s, [])"
  by (simp add: QoreTarFile_close_def)

lemma close_sets_closed: "tf_closed (fst (QoreTarFile_close P s))"
  by (simp add: QoreTarFile_close_def)

lemma closed_memory_session_eq:
  "closed_memory_session =
     \<lparr> tf_filepath = [], tf_mode = TAR_MODE_WRITE, tf_read_archive = None,
       tf_write_archive = None, tf_compression_method = 0, tf_compression_level = - 1,
       tf_format = 0, tf_in_memory = True, tf_closed = True, tf_memory_buffer = [7, 8, 0, 0],
       tf_memory_pos = 0, tf_input_stream = False, tf_output_stream = False,
       tf_read_serial = 0 \<rparr>"
  by (simp add: closed_memory_session_def QoreTarFile_close_def memory_write_session_def
      close_writer_def push_backend_def sample_provider_def sample_provider_of_def)

text \<open>
  Claim C7, as stated, fails: \<open>toData\<close> does not go through \<open>checkOpen\<close>.  On a memory-backed
  write session that has been closed it raises nothing and returns the finished archive.
\<close>

theorem closed_toData_counterexample:
  "tf_closed closed_memory_session
   \<and> QoreTarFile_toData sample_provider closed_memory_session
       = (closed_memory_session, [], Some [7, 8, 0, 0])"
  by (simp add: closed_memory_session_eq QoreTarFile_toData_def)

text \<open>
  Claim C7, amended.  On a closed session every operation that goes through \<open>checkOpen\<close>
  (\<open>entries\<close>, \<open>count\<close>, \<open>hasEntry\<close>, \<open>getEntry\<close>, \<open>read\<close>, \<open>readText\<close>, \<open>add\<close>, \<open>addFile\<close>,
  \<open>addDirectory\<close>, \<open>addSymlink\<close>, \<open>addHardlink\<close>, \<open>extractAll\<close>, \<open>extractEntry\<close>, \<open>extractTo\<close>,
  \<open>openInputStream\<close>, \<open>openOutputStream\<close>, and \<open>addText\<close> once its text is converted) raises
  the \<open>TAR-ERROR\<close> "archive is closed", returns its failure value, leaves the session as
  it was and calls neither the disk writer nor the output file.  \<open>close\<close> returns at once,
  raising nothing and changing nothing, so that nothing is flushed a second time; a
  \<open>close\<close> after a \<open>close\<close> of any session is of this kind.
  \<open>toData\<close> does not look at the lifecycle flag: on a closed memory-backed session (whose
  write coder is gone) it raises nothing and returns the buffer, on any other closed
  session it raises the \<open>TAR-ERROR\<close> for file-based archives.
\<close>

theorem closed_session_operations:
  assumes "tf_closed s"
  shows
    "QoreTarFile_entries P s = (s, [tar_error ''archive is closed''], None)
     \<and> QoreTarFile_count P s = (s, [tar_error ''archive is closed''], - 1)
     \<and> QoreTarFile_hasEntry P name s = (s, [tar_error ''archive is closed''], False)
     \<and> QoreTarFile_getEntry P name s = (s, [tar_error ''archive is closed''], None)
     \<and> QoreTarFile_read P name s = (s, [tar_error ''archive is closed''], None)
     \<and> QoreTarFile_readText P name encoding s = (s, [tar_error ''archive is closed''], None)
     \<and> QoreTarFile_add P name data opts s = (s, [tar_error ''archive is closed''])
     \<and> (p_to_utf8 P tx = Inr str \<longrightarrow>
          QoreTarFile_addText P name tx encoding opts s = (s, [tar_error ''archive is closed'']))
     \<and> QoreTarFile_addFile P name path opts s = (s, [tar_error ''archive is closed''])
     \<and> QoreTarFile_addDirectory P name opts s = (s, [tar_error ''archive is closed''])
     \<and> QoreTarFile_addSymlink P name target opts s = (s, [tar_error ''archive is closed''])
     \<and> QoreTarFile_addHardlink P name target opts s = (s, [tar_error ''archive is closed''])
     \<and> QoreTarFile_extractAll P destPath eopts s = (s, [tar_error ''archive is closed''], [])
     \<and> QoreTarFile_extractEntry P name path s = (s, [tar_error ''archive is closed''], [])
     \<and> QoreTarFile_extractTo P name path s = (s, [tar_error ''archive is closed''], [])
     \<and> QoreTarFile_openInputStream P name s = (s, [tar_error ''archive is closed''], None)
     \<and> QoreTarFile_openOutputStream P name opts s = (s, [tar_error ''archive is closed''], None)
     \<and> tar_error ''archive is closed'' = (''TAR-ERROR'', ''archive is closed'')
     \<and> QoreTarFile_close P s = (s, [])
     \<and> QoreTarFile_close P (fst (QoreTarFile_close P' u)) = (fst (QoreTarFile_close P' u), [])
     \<and> (tf_in_memory s \<and> tf_write_archive s = None \<longrightarrow>
          QoreTarFile_toData P s = (s, [], Some (tf_memory_buffer s)))
     \<and> (\<not> tf_in_memory s \<longrightarrow>
          QoreTarFile_toData P s
            = (s, [tar_error ''cannot get binary data from file-based archive''], None))"
proof -
  note c = checkOpen_closed [OF assms]
  have rd: "QoreTarFile_read P name s = (s, [tar_error ''archive is closed''], None)"
    by (simp add: QoreTarFile_read_def c)
  have ad: "QoreTarFile_add P name d opts s = (s, [tar_error ''archive is closed''])" for d
    by (simp add: QoreTarFile_add_def c)
  have ho: "add_header_only P what e s = (s, [tar_error ''archive is closed''])" for what e
    by (simp add: add_header_only_def c)
  have et: "QoreTarFile_extractTo P name path s = (s, [tar_error ''archive is closed''], [])"
    by (simp add: QoreTarFile_extractTo_def c)
  have c1: "QoreTarFile_entries P s = (s, [tar_error ''archive is closed''], None)"
    by (simp add: QoreTarFile_entries_def c)
  have c2: "QoreTarFile_count P s = (s, [tar_error ''archive is closed''], - 1)"
    by (simp add: QoreTarFile_count_def c)
  have c3: "QoreTarFile_hasEntry P name s = (s, [tar_error ''archive is closed''], False)"
    by (simp add: QoreTarFile_hasEntry_def c)
  have c4: "QoreTarFile_getEntry P name s = (s, [tar_error ''archive is closed''], None)"
    by (simp add: QoreTarFile_getEntry_def c)
  have c6: "QoreTarFile_readText P name encoding s = (s, [tar_error ''archive is closed''], None)"
    by (simp add: QoreTarFile_readText_def rd)
  have c8: "p_to_utf8 P tx = Inr str \<longrightarrow>
          QoreTarFile_addText P name tx encoding opts s = (s, [tar_error ''archive is closed''])"
    by (simp add: QoreTarFile_addText_def ad)
  have c9: "QoreTarFile_addFile P name path opts s = (s, [tar_error ''archive is closed''])"
    by (simp add: QoreTarFile_addFile_def c)
  have c10: "QoreTarFile_addDirectory P name opts s = (s, [tar_error ''archive is closed''])"
    by (simp add: QoreTarFile_addDirectory_def ho Let_def)
  have c11: "QoreTarFile_addSymlink P name target opts s = (s, [tar_error ''archive is closed''])"
    by (simp add: QoreTarFile_addSymlink_def ho)
  have c12: "QoreTarFile_addHardlink P name target opts s = (s, [tar_error ''archive is closed''])"
    by (simp add: QoreTarFile_addHardlink_def ho)
  have c13: "QoreTarFile_extractAll P destPath eopts s = (s, [tar_error ''archive is closed''], [])"
    by (simp add: QoreTarFile_extractAll_def c)
  have c14: "QoreTarFile_extractEntry P name path s = (s, [tar_error ''archive is closed''], [])"
    by (simp add: QoreTarFile_extractEntry_def et)
  have c16: "QoreTarFile_openInputStream P name s = (s, [tar_error ''archive is closed''], None)"
    by (simp add: QoreTarFile_openInputStream_def c)
  have c17: "QoreTarFile_openOutputStream P name opts s = (s, [tar_error ''archive is closed''], None)"
    by (simp add: QoreTarFile_openOutputStream_def c)
  have c18: "tar_error ''archive is closed'' = (''TAR-ERROR'', ''archive is closed'')"
    by (simp add: tar_error_def)
  have c19: "QoreTarFile_close P s = (s, [])"
    using assms by (simp add: QoreTarFile_close_def)
  have c19': "QoreTarFile_close P (fst (QoreTarFile_close P' u)) = (fst (QoreTarFile_close P' u), [])"
    by (rule close_closed_session) (rule close_sets_closed)
  have c20: "tf_in_memory s \<and> tf_write_archive s = None \<longrightarrow>
          QoreTarFile_toData P s = (s, [], Some (tf_memory_buffer s))"
    by (simp add: QoreTarFile_toData_def)
  have c21: "\<not> tf_in_memory s \<longrightarrow>
          QoreTarFile_toData P s
            = (s, [tar_error ''cannot get binary data from file-based archive''], None)"
    by (simp add: QoreTarFile_toData_def)
  from c1 c2 c3 c4 rd c6 ad c8 c9 c10 c11 c12 c13 c14 et c16 c17 c18 c19 c19' c20 c21
  show ?thesis by (intro conjI)
qed

theorem closed_session_operations_witness:
  "tf_closed closed_memory_session
   \<and> QoreTarFile_read sample_provider ''a.txt'' closed_memory_session
       = (closed_memory_session, [(''TAR-ERROR'', ''archive is closed'')], None)
   \<and> QoreTarFile_add sample_provider ''a.txt'' (Some [1, 2]) None closed_memory_session
       = (closed_memory_session, [(''TAR-ERROR'', ''archive is closed'')])
   \<and> p_to_utf8 sample_provider [104, 105] = Inr [104, 105]
   \<and> QoreTarFile_addText sample_provider ''a.txt'' [104, 105] None None closed_memory_session
       = (closed_memory_session, [(''TAR-ERROR'', ''archive is closed'')])
   \<and> QoreTarFile_extractAll sample_provider (Some ''out'') None closed_memory_session
       = (closed_memory_session, [(''TAR-ERROR'', ''archive is closed'')], [])
   \<and> QoreTarFile_close sample_provider closed_memory_session = (closed_memory_session, [])
   \<and> tf_in_memory closed_memory_session \<and> tf_write_archive closed_memory_session = None
   \<and> QoreTarFile_toData sample_provider closed_memory_session
       = (closed_memory_session, [], Some [7, 8, 0, 0])"
proof -
  have cl: "tf_closed closed_memory_session" and im: "tf_in_memory closed_memory_session"
    and wa: "tf_write_archive closed_memory_session = None"
    and mb: "tf_memory_buffer closed_memory_session = [7, 8, 0, 0]"
    by (simp_all add: closed_memory_session_eq)
  have u: "p_to_utf8 sample_provider [104, 105] = Inr [104, 105]"
    by (simp add: sample_provider_def sample_provider_of_def)
  note th = closed_session_operations [OF cl, where P = sample_provider and name = "''a.txt''"
      and encoding = None and data = "Some [1, 2]" and opts = None and tx = "[104, 105]"
      and str = "[104, 105]" and path = "''f''" and target = "''t''" and destPath = "Some ''out''"
      and eopts = None and P' = sample_provider and u = "memory_write_session [7, 8]"]
  from th have te: "tar_error ''archive is closed'' = (''TAR-ERROR'', ''archive is closed'')"
    by blast
  from th have a: "QoreTarFile_read sample_provider ''a.txt'' closed_memory_session
       = (closed_memory_session, [tar_error ''archive is closed''], None)" by blast
  from th have b: "QoreTarFile_add sample_provider ''a.txt'' (Some [1, 2]) None closed_memory_session
       = (closed_memory_session, [tar_error ''archive is closed''])" by blast
  from th u have c: "QoreTarFile_addText sample_provider ''a.txt'' [104, 105] None None closed_memory_session
       = (closed_memory_session, [tar_error ''archive is closed''])" by blast
  from th have d: "QoreTarFile_extractAll sample_provider (Some ''out'') None closed_memory_session
       = (closed_memory_session, [tar_error ''archive is closed''], [])" by blast
  from th have e: "QoreTarFile_close sample_provider closed_memory_session = (closed_memory_session, [])"
    by blast
  from th im wa have f: "QoreTarFile_toData sample_provider closed_memory_session
       = (closed_memory_session, [], Some (tf_memory_buffer closed_memory_session))" by blast
  from cl a b u c d e im wa f show ?thesis
    unfolding te mb by (intro conjI)
qed

section \<open>Properties of read\<close>

lemma next_header_Nil: "archive_read_next_header (reader_of []) = (None, reader_of [])"
  by (simp add: archive_read_next_header_def reader_of_def)

lemma next_header_Cons:
  "archive_read_next_header (reader_of (m # ms)) =
     (Some (m_header m),
      \<lparr> r_pending = ms, r_data = m_data m, r_fault = m_fault m, r_blocks = m_blocks m \<rparr>)"
  by (simp add: archive_read_next_header_def reader_of_def)

lemma data_skip_reader:
  "archive_read_data_skip \<lparr> r_pending = ms, r_data = d, r_fault = f, r_blocks = b \<rparr> = reader_of ms"
  by (simp add: archive_read_data_skip_def reader_of_def)










section \<open>Properties of extractAll\<close>

lemma next_header_canon:
  "archive_read_next_header a = archive_read_next_header (reader_of (r_pending a))"
  by (cases a) (simp add: archive_read_next_header_def reader_of_def split: list.splits)

lemma extract_loop_canon:
  "extract_loop P d a disk xs = extract_loop P d (reader_of (r_pending a)) disk xs"
  by (subst extract_loop.simps [of P d a], subst extract_loop.simps [of P d "reader_of (r_pending a)"])
    (simp only: next_header_canon [of a])

lemma headers_of_append: "headers_of (cs @ ds) = headers_of cs @ headers_of ds"
  by (induction cs rule: headers_of.induct) simp_all

lemma copy_blocks_headers:
  "headers_of (fst (snd (copy_blocks P n blocks disk xs))) = headers_of disk"
  by (induction P n blocks disk xs rule: copy_blocks.induct)
    (auto simp: headers_of_append split: prod.splits)

lemma extract_loop_Nil: "extract_loop P d (reader_of []) disk xs = (reader_of [], disk, xs)"
  by (subst extract_loop.simps) (simp add: next_header_Nil)

lemma rewritten_size: "ae_size (rewritten d e) = ae_size e"
  by (simp add: rewritten_def Let_def split: option.splits)

lemma rewritten_symlink: "ae_symlink (rewritten d e) = ae_symlink e"
  by (simp add: rewritten_def Let_def split: option.splits)

lemma nonempty_target_first: "nonempty_target (Some t) = (t \<noteq> [] \<and> hd t \<noteq> CHR 0x00)"
  by (cases t) (simp_all add: nonempty_target_def c_at_def)

lemma entry_safe_guards:
  "entry_safe e =
     (isPathSafe (Some (ae_pathname e))
      \<and> \<not> (nonempty_target (ae_hardlink e) \<and> \<not> isPathSafe (ae_hardlink e))
      \<and> \<not> (nonempty_target (ae_symlink e) \<and> \<not> isPathSafe (ae_symlink e)))"
proof -
  have h: "(case ae_hardlink e of None \<Rightarrow> True
            | Some t \<Rightarrow> t = [] \<or> hd t = CHR 0x00 \<or> isPathSafe (Some t))
           = (\<not> (nonempty_target (ae_hardlink e) \<and> \<not> isPathSafe (ae_hardlink e)))"
    by (cases "ae_hardlink e") (simp add: nonempty_target_def, auto simp: nonempty_target_first)
  have l: "(case ae_symlink e of None \<Rightarrow> True
            | Some t \<Rightarrow> t = [] \<or> hd t = CHR 0x00 \<or> isPathSafe (Some t))
           = (\<not> (nonempty_target (ae_symlink e) \<and> \<not> isPathSafe (ae_symlink e)))"
    by (cases "ae_symlink e") (simp add: nonempty_target_def, auto simp: nonempty_target_first)
  show ?thesis unfolding entry_safe_def h l ..
qed

lemma extract_loop_unfold:
  "extract_loop P d (reader_of (m # rest)) disk xs =
     (let e = m_header m;
          a1 = \<lparr> r_pending = rest, r_data = m_data m, r_fault = m_fault m, r_blocks = m_blocks m \<rparr>
      in if \<not> isPathSafe (Some (ae_pathname e)) then
           (a1, disk,
            xs @ [security_error (''refusing to extract entry with unsafe path: '' @ [CHR 0x27]
                    @ c_str (ae_pathname e) @ [CHR 0x27] @ '' (potential path traversal attack)'')])
         else if nonempty_target (ae_hardlink e) \<and> \<not> isPathSafe (ae_hardlink e) then
           (a1, disk,
            xs @ [security_error (''refusing to extract hardlink with unsafe target: ''
                    @ [CHR 0x27] @ (case ae_hardlink e of None \<Rightarrow> [] | Some t \<Rightarrow> c_str t)
                    @ [CHR 0x27])])
         else if nonempty_target (ae_symlink e) \<and> \<not> isPathSafe (ae_symlink e) then
           (a1, disk,
            xs @ [security_error (''refusing to extract symlink with unsafe target: ''
                    @ [CHR 0x27] @ (case ae_symlink e of None \<Rightarrow> [] | Some t \<Rightarrow> c_str t)
                    @ [CHR 0x27])])
         else
           (case p_disk_header P disk (rewritten d e) of
              (r, err) \<Rightarrow>
                if r \<noteq> ARCHIVE_OK then
                  (a1, disk @ [DiskHeader (rewritten d e)],
                   xs @ [tar_error (''failed to extract '' @ [CHR 0x27]
                           @ ae_pathname (rewritten d e) @ [CHR 0x27] @ '': '' @ err)])
                else
                  (case (if ae_size e > 0
                         then copy_blocks P (ae_pathname (rewritten d e)) (m_blocks m)
                                (disk @ [DiskHeader (rewritten d e)]) xs
                         else (m_blocks m, disk @ [DiskHeader (rewritten d e)], xs)) of
                     (blocks, disk1, xs1) \<Rightarrow>
                       extract_loop P d (a1\<lparr> r_blocks := blocks \<rparr>)
                         (disk1 @ [DiskFinishEntry]) xs1)))"
proof (cases "ae_hardlink (m_header m)")
  case None
  then have rw: "rewritten d (m_header m)
                   = (m_header m)\<lparr> ae_pathname := d @ ''/'' @ c_str (ae_pathname (m_header m)) \<rparr>"
    by (simp add: rewritten_def)
  show ?thesis
    by (subst extract_loop.simps) (simp add: next_header_Cons Let_def None rw split: prod.splits)
next
  case (Some t)
  show ?thesis
  proof (cases "t \<noteq> [] \<and> hd t \<noteq> CHR 0x00")
    case True
    then have ne: "nonempty_target (Some t)" by (simp add: nonempty_target_first)
    from True have rw: "rewritten d (m_header m)
                   = (m_header m)\<lparr> ae_pathname := d @ ''/'' @ c_str (ae_pathname (m_header m)),
                                    ae_hardlink := Some (d @ ''/'' @ c_str t) \<rparr>"
      by (simp add: rewritten_def Some)
    show ?thesis
      by (subst extract_loop.simps) (simp add: next_header_Cons Let_def Some ne rw split: prod.splits)
  next
    case False
    then have ne: "\<not> nonempty_target (Some t)" by (simp add: nonempty_target_first)
    from False have rw: "rewritten d (m_header m)
                   = (m_header m)\<lparr> ae_pathname := d @ ''/'' @ c_str (ae_pathname (m_header m)) \<rparr>"
      by (auto simp: rewritten_def Some)
    show ?thesis
      by (subst extract_loop.simps) (simp add: next_header_Cons Let_def Some ne rw split: prod.splits)
  qed
qed

lemma extract_loop_safe:
  assumes "entry_safe (m_header m)"
      and "fst (p_disk_header P disk (rewritten d (m_header m))) = ARCHIVE_OK"
  shows "extract_loop P d (reader_of (m # rest)) disk xs =
           extract_loop P d (reader_of rest)
             (fst (after_entry P d m disk xs)) (snd (after_entry P d m disk xs))"
proof -
  let ?e = "m_header m"
  obtain r err where hd: "p_disk_header P disk (rewritten d ?e) = (r, err)"
    by (cases "p_disk_header P disk (rewritten d ?e)")
  with assms(2) have r: "r = ARCHIVE_OK" by simp
  obtain blocks disk1 xs1 where cb:
    "(if ae_size ?e > 0
      then copy_blocks P (ae_pathname (rewritten d ?e)) (m_blocks m)
             (disk @ [DiskHeader (rewritten d ?e)]) xs
      else (m_blocks m, disk @ [DiskHeader (rewritten d ?e)], xs)) = (blocks, disk1, xs1)"
    by (metis prod_cases3)
  have ae: "after_entry P d m disk xs = (disk1 @ [DiskFinishEntry], xs1)"
    using cb by (simp add: after_entry_def)
  have "extract_loop P d (reader_of (m # rest)) disk xs =
          extract_loop P d
            (\<lparr> r_pending = rest, r_data = m_data m, r_fault = m_fault m, r_blocks = m_blocks m \<rparr>
               \<lparr> r_blocks := blocks \<rparr>)
            (disk1 @ [DiskFinishEntry]) xs1"
  proof -
    have s1: "(\<not> isPathSafe (Some (ae_pathname ?e))) = False"
      and s2: "(nonempty_target (ae_hardlink ?e) \<and> \<not> isPathSafe (ae_hardlink ?e)) = False"
      and s3: "(nonempty_target (ae_symlink ?e) \<and> \<not> isPathSafe (ae_symlink ?e)) = False"
      using assms(1) by (auto simp: entry_safe_guards)
    have ok: "(ARCHIVE_OK \<noteq> ARCHIVE_OK) = False" by simp
    show ?thesis
      by (simp only: extract_loop_unfold Let_def s1 s2 s3 if_False hd [unfolded r] prod.case ok
          cb [unfolded r])
  qed
  also have "\<dots> = extract_loop P d (reader_of rest) (disk1 @ [DiskFinishEntry]) xs1"
    by (subst extract_loop_canon) simp
  finally show ?thesis by (simp add: ae)
qed

lemma extract_loop_unsafe:
  assumes "\<not> entry_safe (m_header v)"
  shows "\<exists>msg. extract_loop P d (reader_of (v # post)) disk xs =
           (\<lparr> r_pending = post, r_data = m_data v, r_fault = m_fault v, r_blocks = m_blocks v \<rparr>,
            disk, xs @ [security_error msg])"
proof -
  let ?a1 = "\<lparr> r_pending = post, r_data = m_data v, r_fault = m_fault v, r_blocks = m_blocks v \<rparr>"
  consider (p) "\<not> isPathSafe (Some (ae_pathname (m_header v)))"
    | (h) "isPathSafe (Some (ae_pathname (m_header v)))"
          "nonempty_target (ae_hardlink (m_header v)) \<and> \<not> isPathSafe (ae_hardlink (m_header v))"
    | (l) "isPathSafe (Some (ae_pathname (m_header v)))"
          "\<not> (nonempty_target (ae_hardlink (m_header v)) \<and> \<not> isPathSafe (ae_hardlink (m_header v)))"
          "nonempty_target (ae_symlink (m_header v)) \<and> \<not> isPathSafe (ae_symlink (m_header v))"
    using assms unfolding entry_safe_guards by blast
  then show ?thesis
  proof cases
    case p
    then have "extract_loop P d (reader_of (v # post)) disk xs =
        (?a1, disk,
         xs @ [security_error (''refusing to extract entry with unsafe path: '' @ [CHR 0x27]
                 @ c_str (ae_pathname (m_header v)) @ [CHR 0x27]
                 @ '' (potential path traversal attack)'')])"
      by (simp only: extract_loop_unfold Let_def if_True not_False_eq_True)
    then show ?thesis by blast
  next
    case h
    then have "extract_loop P d (reader_of (v # post)) disk xs =
        (?a1, disk,
         xs @ [security_error (''refusing to extract hardlink with unsafe target: ''
                 @ [CHR 0x27] @ (case ae_hardlink (m_header v) of None \<Rightarrow> [] | Some t \<Rightarrow> c_str t)
                 @ [CHR 0x27])])"
      by (simp only: extract_loop_unfold Let_def) simp
    then show ?thesis by blast
  next
    case l
    then have "extract_loop P d (reader_of (v # post)) disk xs =
        (?a1, disk,
         xs @ [security_error (''refusing to extract symlink with unsafe target: ''
                 @ [CHR 0x27] @ (case ae_symlink (m_header v) of None \<Rightarrow> [] | Some t \<Rightarrow> c_str t)
                 @ [CHR 0x27])])"
      by (simp only: extract_loop_unfold Let_def) simp
    then show ?thesis by blast
  qed
qed


lemma after_entry_headers:
  "headers_of (fst (after_entry P d m disk xs)) = headers_of disk @ [rewritten d (m_header m)]"
proof (cases "ae_size (m_header m) > 0")
  case True
  obtain blocks disk1 xs1 where cb:
    "copy_blocks P (ae_pathname (rewritten d (m_header m))) (m_blocks m)
       (disk @ [DiskHeader (rewritten d (m_header m))]) xs = (blocks, disk1, xs1)"
    by (metis prod_cases3)
  from copy_blocks_headers [of P "ae_pathname (rewritten d (m_header m))" "m_blocks m"
      "disk @ [DiskHeader (rewritten d (m_header m))]" xs] cb
  have "headers_of disk1 = headers_of disk @ [rewritten d (m_header m)]"
    by (simp add: headers_of_append)
  with True cb show ?thesis by (simp add: after_entry_def headers_of_append)
next
  case False
  then show ?thesis by (simp add: after_entry_def headers_of_append)
qed

lemma extract_loop_abort:
  assumes "\<forall>h e. fst (p_disk_header P h e) = ARCHIVE_OK"
      and "\<forall>m \<in> set pre. entry_safe (m_header m)"
      and "\<not> entry_safe (m_header v)"
  shows "\<exists>a' msg. extract_loop P d (reader_of (pre @ v # post)) disk xs =
           (a', fst (snd (extract_loop P d (reader_of pre) disk xs)),
            snd (snd (extract_loop P d (reader_of pre) disk xs)) @ [security_error msg])"
  using assms(2)
proof (induction pre arbitrary: disk xs)
  case Nil
  from extract_loop_unsafe [OF assms(3), of P d post disk xs] show ?case
    by (auto simp: extract_loop_Nil)
next
  case (Cons m pre)
  then have sm: "entry_safe (m_header m)" and sp: "\<forall>m \<in> set pre. entry_safe (m_header m)"
    by simp_all
  have okm: "fst (p_disk_header P disk (rewritten d (m_header m))) = ARCHIVE_OK"
    using assms(1) by simp
  have l: "extract_loop P d (reader_of ((m # pre) @ v # post)) disk xs =
           extract_loop P d (reader_of (pre @ v # post))
             (fst (after_entry P d m disk xs)) (snd (after_entry P d m disk xs))"
    using extract_loop_safe [OF sm okm, of "pre @ v # post" xs] by simp
  have r: "extract_loop P d (reader_of (m # pre)) disk xs =
           extract_loop P d (reader_of pre)
             (fst (after_entry P d m disk xs)) (snd (after_entry P d m disk xs))"
    using extract_loop_safe [OF sm okm, of pre xs] by simp
  from Cons.IH [OF sp, of "fst (after_entry P d m disk xs)" "snd (after_entry P d m disk xs)"]
  show ?case unfolding l r .
qed

lemma extract_loop_headers:
  assumes "\<forall>h e. fst (p_disk_header P h e) = ARCHIVE_OK"
      and "\<forall>m \<in> set pre. entry_safe (m_header m)"
  shows "headers_of (fst (snd (extract_loop P d (reader_of pre) disk xs)))
           = headers_of disk @ map (\<lambda>m. rewritten d (m_header m)) pre"
  using assms(2)
proof (induction pre arbitrary: disk xs)
  case Nil
  show ?case by (simp add: extract_loop_Nil)
next
  case (Cons m pre)
  then have sm: "entry_safe (m_header m)" and sp: "\<forall>m \<in> set pre. entry_safe (m_header m)"
    by simp_all
  have okm: "fst (p_disk_header P disk (rewritten d (m_header m))) = ARCHIVE_OK"
    using assms(1) by simp
  have r: "extract_loop P d (reader_of (m # pre)) disk xs =
           extract_loop P d (reader_of pre)
             (fst (after_entry P d m disk xs)) (snd (after_entry P d m disk xs))"
    using extract_loop_safe [OF sm okm, of pre xs] by simp
  from Cons.IH [OF sp, of "fst (after_entry P d m disk xs)" "snd (after_entry P d m disk xs)"]
  show ?case unfolding r by (simp add: after_entry_headers)
qed

lemma extractAll_with_reader:
  assumes "checkOpen s False = None" "reopenRead P s = (s1, [])" "tf_read_archive s1 = Some a"
      and "p_disk_new P"
  shows "QoreTarFile_extractAll P destPath opts s =
           (case extract_loop P (es_destination (parseExtractOptions opts (extract_defaults destPath))) a
                   [DiskSetOptions (extract_flags (parseExtractOptions opts (extract_defaults destPath))),
                    DiskStandardLookup] [] of
              (a1, disk, xs1) \<Rightarrow> (s1\<lparr> tf_read_archive := Some a1 \<rparr>, xs1, disk @ [DiskClose]))"
  using assms by (simp add: QoreTarFile_extractAll_def Let_def)


lemma entry_safe_fields:
  "entry_safe e =
     (isPathSafe (Some (ae_pathname e))
      \<and> (\<forall>t. ae_hardlink e = Some t \<and> t \<noteq> [] \<and> hd t \<noteq> CHR 0x00 \<longrightarrow> isPathSafe (Some t))
      \<and> (\<forall>t. ae_symlink e = Some t \<and> t \<noteq> [] \<and> hd t \<noteq> CHR 0x00 \<longrightarrow> isPathSafe (Some t)))"
  by (auto simp: entry_safe_def split: option.splits)

lemma sample_extract_settings:
  "es_destination (parseExtractOptions None (extract_defaults (Some ''out''))) = ''out''"
  "extract_flags (parseExtractOptions None (extract_defaults (Some ''out''))) = 6"
  by (simp_all add: parseExtractOptions_def extract_defaults_def extract_flags_def
      c_str_def ARCHIVE_EXTRACT_TIME_def ARCHIVE_EXTRACT_PERM_def ARCHIVE_EXTRACT_OWNER_def
      ARCHIVE_EXTRACT_NO_OVERWRITE_def)

lemma sample_reopen:
  "reopenRead (sample_provider_of ms) (memory_read_session [1] [])
     = ((memory_read_session [1] ms)\<lparr> tf_read_serial := 1 \<rparr>, [])"
  by (simp add: reopenRead_def openRead_def sample_provider_of_def memory_read_session_def)

lemma sample_after_ok:
  "after_entry (sample_provider_of ms) ''out'' (file_member ''ok.txt'' [1, 2]) disk xs
     = (disk @ [DiskHeader (sample_entry\<lparr> ae_pathname := ''out/ok.txt'', ae_size := 2 \<rparr>),
                DiskBlock 0 [1, 2], DiskFinishEntry], xs)"
  by (simp add: after_entry_def rewritten_def file_member_def sample_entry_def c_str_def
      sample_provider_of_def)

lemma sample_after_alias:
  "after_entry (sample_provider_of ms) ''out'' (hardlink_member ''alias'' ''ok.txt'') disk xs
     = (disk @ [DiskHeader (sample_entry\<lparr> ae_pathname := ''out/alias'',
                                           ae_hardlink := Some ''out/ok.txt'' \<rparr>),
                DiskFinishEntry], xs)"
  by (simp add: after_entry_def rewritten_def hardlink_member_def sample_entry_def c_str_def
      sample_provider_of_def)

text \<open>
  Claim C2.  Take a session that passes \<open>checkOpen\<close> for reading, whose rewind succeeds and
  whose read coder delivers the members \<open>pre @ v # post\<close>, and a disk writer that can be
  created and accepts every header.  Let every member of \<open>pre\<close> have a safe path, a hardlink
  target that is safe when it is present and non-empty, and a symbolic-link target that is
  safe when it is present and non-empty; and let \<open>v\<close> have an unsafe path, or a hardlink
  target that is present, non-empty and unsafe, or a symbolic-link target that is present,
  non-empty and unsafe (``safe'' is \<open>isPathSafe\<close>; the conditions are on the fields of the
  entries as the read coder delivers them).  Then \<open>extractAll\<close> raises, after whatever
  extracting \<open>pre\<close> alone raises, one exception with the code \<open>TAR-SECURITY-ERROR\<close>, which is
  not \<open>TAR-ERROR\<close>; the calls on the disk writer are exactly those of extracting \<open>pre\<close>
  alone, followed by closing it: the headers written are those of \<open>pre\<close>, in order, rooted
  under the destination, and neither \<open>v\<close> nor any member after it reaches the disk writer.
\<close>

theorem extractAll_aborts_on_unsafe:
  assumes "checkOpen s False = None"
      and "reopenRead P s = (s1, [])"
      and "tf_read_archive s1 = Some (reader_of (pre @ v # post))"
      and "p_disk_new P"
      and "\<forall>h e. fst (p_disk_header P h e) = ARCHIVE_OK"
      and "\<forall>m \<in> set pre.
             isPathSafe (Some (ae_pathname (m_header m)))
             \<and> (\<forall>t. ae_hardlink (m_header m) = Some t \<and> t \<noteq> [] \<and> hd t \<noteq> CHR 0x00
                    \<longrightarrow> isPathSafe (Some t))
             \<and> (\<forall>t. ae_symlink (m_header m) = Some t \<and> t \<noteq> [] \<and> hd t \<noteq> CHR 0x00
                    \<longrightarrow> isPathSafe (Some t))"
      and "\<not> isPathSafe (Some (ae_pathname (m_header v)))
           \<or> (\<exists>t. ae_hardlink (m_header v) = Some t \<and> t \<noteq> [] \<and> hd t \<noteq> CHR 0x00
                  \<and> \<not> isPathSafe (Some t))
           \<or> (\<exists>t. ae_symlink (m_header v) = Some t \<and> t \<noteq> [] \<and> hd t \<noteq> CHR 0x00
                  \<and> \<not> isPathSafe (Some t))"
      and "st = parseExtractOptions opts (extract_defaults destPath)"
      and "extract_loop P (es_destination st) (reader_of pre)
             [DiskSetOptions (extract_flags st), DiskStandardLookup] [] = (a0, calls0, xs0)"
  shows "\<exists>s2 msg. QoreTarFile_extractAll P destPath opts s
                    = (s2, xs0 @ [(''TAR-SECURITY-ERROR'', msg)], calls0 @ [DiskClose])
                 \<and> headers_of (calls0 @ [DiskClose])
                    = map (\<lambda>m. rewritten (es_destination st) (m_header m)) pre
                 \<and> ''TAR-SECURITY-ERROR'' \<noteq> ''TAR-ERROR''"
proof -
  let ?d = "es_destination st"
  let ?init = "[DiskSetOptions (extract_flags st), DiskStandardLookup]"
  have sp: "\<forall>m \<in> set pre. entry_safe (m_header m)"
    using assms(6) unfolding entry_safe_fields .
  have sv: "\<not> entry_safe (m_header v)"
    using assms(7) unfolding entry_safe_fields by blast
  from extract_loop_abort [OF assms(5) sp sv, of ?d post ?init "[]"] assms(9)
  obtain a' msg where lp:
    "extract_loop P ?d (reader_of (pre @ v # post)) ?init [] = (a', calls0, xs0 @ [security_error msg])"
    by auto
  have ex: "QoreTarFile_extractAll P destPath opts s
              = (s1\<lparr> tf_read_archive := Some a' \<rparr>, xs0 @ [(''TAR-SECURITY-ERROR'', msg)],
                 calls0 @ [DiskClose])"
    using extractAll_with_reader [OF assms(1,2,3,4), of destPath opts] lp
    by (simp add: assms(8) [symmetric] security_error_def)
  have hs: "headers_of (calls0 @ [DiskClose]) = map (\<lambda>m. rewritten ?d (m_header m)) pre"
    using extract_loop_headers [OF assms(5) sp, of ?d ?init "[]"] assms(9)
    by (simp add: headers_of_append)
  from ex hs show ?thesis by simp
qed

theorem extractAll_aborts_on_unsafe_witness:
  "\<not> isPathSafe (Some ''../evil'')
   \<and> (\<exists>s2 msg.
        QoreTarFile_extractAll
          (sample_provider_of [file_member ''ok.txt'' [1, 2], file_member ''../evil'' [6],
                               file_member ''later.txt'' [3]])
          (Some ''out'') None (memory_read_session [1] [])
        = (s2, [(''TAR-SECURITY-ERROR'', msg)],
           [DiskSetOptions 6, DiskStandardLookup,
            DiskHeader (sample_entry\<lparr> ae_pathname := ''out/ok.txt'', ae_size := 2 \<rparr>),
            DiskBlock 0 [1, 2], DiskFinishEntry, DiskClose]))
   \<and> isPathSafe (Some ''shadow'')
   \<and> ae_hardlink (m_header (hardlink_member ''shadow'' ''../../etc/shadow''))
       = Some ''../../etc/shadow''
   \<and> ae_symlink (m_header (hardlink_member ''shadow'' ''../../etc/shadow'')) = None
   \<and> \<not> isPathSafe (Some ''../../etc/shadow'')
   \<and> (\<exists>s2 msg.
        QoreTarFile_extractAll
          (sample_provider_of [file_member ''ok.txt'' [1, 2], hardlink_member ''alias'' ''ok.txt'',
                               hardlink_member ''shadow'' ''../../etc/shadow'',
                               file_member ''later.txt'' [3]])
          (Some ''out'') None (memory_read_session [1] [])
        = (s2, [(''TAR-SECURITY-ERROR'', msg)],
           [DiskSetOptions 6, DiskStandardLookup,
            DiskHeader (sample_entry\<lparr> ae_pathname := ''out/ok.txt'', ae_size := 2 \<rparr>),
            DiskBlock 0 [1, 2], DiskFinishEntry,
            DiskHeader (sample_entry\<lparr> ae_pathname := ''out/alias'',
                                       ae_hardlink := Some ''out/ok.txt'' \<rparr>),
            DiskFinishEntry, DiskClose]))
   \<and> isPathSafe (Some ''passwd'')
   \<and> ae_hardlink (m_header (symlink_member ''passwd'' ''/etc/passwd'')) = None
   \<and> ae_symlink (m_header (symlink_member ''passwd'' ''/etc/passwd'')) = Some ''/etc/passwd''
   \<and> \<not> isPathSafe (Some ''/etc/passwd'')
   \<and> (\<exists>s2 msg.
        QoreTarFile_extractAll
          (sample_provider_of [symlink_member ''passwd'' ''/etc/passwd'',
                               file_member ''later.txt'' [3]])
          (Some ''out'') None (memory_read_session [1] [])
        = (s2, [(''TAR-SECURITY-ERROR'', msg)],
           [DiskSetOptions 6, DiskStandardLookup, DiskClose]))"
proof -
  define ok where "ok = file_member ''ok.txt'' [1, 2]"
  define lnk where "lnk = hardlink_member ''alias'' ''ok.txt''"
  define evil where "evil = file_member ''../evil'' [6]"
  define shadow where "shadow = hardlink_member ''shadow'' ''../../etc/shadow''"
  define passwd where "passwd = symlink_member ''passwd'' ''/etc/passwd''"
  define later where "later = file_member ''later.txt'' [3]"
  define s where "s = memory_read_session [1] []"
  define st where "st = parseExtractOptions None (extract_defaults (Some ''out''))"
  define init where "init = [DiskSetOptions 6, DiskStandardLookup]"
  define h_ok where "h_ok = DiskHeader (sample_entry\<lparr> ae_pathname := ''out/ok.txt'', ae_size := 2 \<rparr>)"
  define h_alias where
    "h_alias = DiskHeader (sample_entry\<lparr> ae_pathname := ''out/alias'',
                                          ae_hardlink := Some ''out/ok.txt'' \<rparr>)"
  have dst: "es_destination st = ''out''" and fl: "extract_flags st = 6"
    by (simp_all add: st_def sample_extract_settings)
  have co: "checkOpen s False = None"
    by (simp add: s_def checkOpen_def memory_read_session_def)
  have ro: "\<And>ms. reopenRead (sample_provider_of ms) s
              = ((memory_read_session [1] ms)\<lparr> tf_read_serial := 1 \<rparr>, [])"
    by (simp add: s_def sample_reopen)
  have ra1: "tf_read_archive ((memory_read_session [1] [ok, evil, later])\<lparr> tf_read_serial := 1 \<rparr>)
               = Some (reader_of ([ok] @ evil # [later]))"
    and ra2: "tf_read_archive ((memory_read_session [1] [ok, lnk, shadow, later])\<lparr> tf_read_serial := 1 \<rparr>)
               = Some (reader_of ([ok, lnk] @ shadow # [later]))"
    and ra3: "tf_read_archive ((memory_read_session [1] [passwd, later])\<lparr> tf_read_serial := 1 \<rparr>)
               = Some (reader_of ([] @ passwd # [later]))"
    by (simp_all add: memory_read_session_def)
  have dn: "\<And>ms. p_disk_new (sample_provider_of ms)" by (simp add: sample_provider_of_def)
  have dh: "\<And>ms. \<forall>h e. fst (p_disk_header (sample_provider_of ms) h e) = ARCHIVE_OK"
    by (simp add: sample_provider_of_def)
  have sok: "entry_safe (m_header ok)"
    unfolding ok_def file_member_def sample_entry_def by code_simp
  have sal: "entry_safe (m_header lnk)"
    unfolding lnk_def hardlink_member_def sample_entry_def by code_simp
  have p_evil: "\<not> isPathSafe (Some ''../evil'')" by code_simp
  have p_shadow: "isPathSafe (Some ''shadow'')" by code_simp
  have t_shadow: "\<not> isPathSafe (Some ''../../etc/shadow'')" by code_simp
  have p_passwd: "isPathSafe (Some ''passwd'')" by code_simp
  have t_passwd: "\<not> isPathSafe (Some ''/etc/passwd'')" by code_simp
  have f_shadow: "ae_hardlink (m_header shadow) = Some ''../../etc/shadow''"
      "ae_symlink (m_header shadow) = None"
    by (simp_all add: shadow_def hardlink_member_def sample_entry_def)
  have f_passwd: "ae_hardlink (m_header passwd) = None"
      "ae_symlink (m_header passwd) = Some ''/etc/passwd''"
    by (simp_all add: passwd_def symlink_member_def sample_entry_def)
  have lp0: "\<And>ms. extract_loop (sample_provider_of ms) (es_destination st) (reader_of [])
              [DiskSetOptions (extract_flags st), DiskStandardLookup] [] = (reader_of [], init, [])"
    by (simp add: dst fl init_def extract_loop_Nil)
  have lp1: "\<And>ms. extract_loop (sample_provider_of ms) (es_destination st) (reader_of [ok])
              [DiskSetOptions (extract_flags st), DiskStandardLookup] []
            = (reader_of [], init @ [h_ok, DiskBlock 0 [1, 2], DiskFinishEntry], [])"
    unfolding dst fl
    using extract_loop_safe [OF sok, of _ init "''out''" "[]" "[]"] dh
    by (simp add: ok_def sample_after_ok extract_loop_Nil init_def h_ok_def)
  have lp2: "\<And>ms. extract_loop (sample_provider_of ms) (es_destination st) (reader_of [ok, lnk])
              [DiskSetOptions (extract_flags st), DiskStandardLookup] []
            = (reader_of [],
               init @ [h_ok, DiskBlock 0 [1, 2], DiskFinishEntry, h_alias, DiskFinishEntry], [])"
    unfolding dst fl
    using extract_loop_safe [OF sok, of _ init "''out''" "[lnk]" "[]"]
      extract_loop_safe [OF sal, of _ "init @ [h_ok, DiskBlock 0 [1, 2], DiskFinishEntry]"
        "''out''" "[]" "[]"] dh
    by (simp add: ok_def lnk_def sample_after_ok sample_after_alias extract_loop_Nil init_def
        h_ok_def h_alias_def)
  have pre0: "\<forall>m \<in> set ([] :: arc_member list).
             isPathSafe (Some (ae_pathname (m_header m)))
             \<and> (\<forall>t. ae_hardlink (m_header m) = Some t \<and> t \<noteq> [] \<and> hd t \<noteq> CHR 0x00
                    \<longrightarrow> isPathSafe (Some t))
             \<and> (\<forall>t. ae_symlink (m_header m) = Some t \<and> t \<noteq> [] \<and> hd t \<noteq> CHR 0x00
                    \<longrightarrow> isPathSafe (Some t))"
    by simp
  have pre1: "\<forall>m \<in> set [ok].
             isPathSafe (Some (ae_pathname (m_header m)))
             \<and> (\<forall>t. ae_hardlink (m_header m) = Some t \<and> t \<noteq> [] \<and> hd t \<noteq> CHR 0x00
                    \<longrightarrow> isPathSafe (Some t))
             \<and> (\<forall>t. ae_symlink (m_header m) = Some t \<and> t \<noteq> [] \<and> hd t \<noteq> CHR 0x00
                    \<longrightarrow> isPathSafe (Some t))"
    using sok unfolding entry_safe_fields by simp
  have pre2: "\<forall>m \<in> set [ok, lnk].
             isPathSafe (Some (ae_pathname (m_header m)))
             \<and> (\<forall>t. ae_hardlink (m_header m) = Some t \<and> t \<noteq> [] \<and> hd t \<noteq> CHR 0x00
                    \<longrightarrow> isPathSafe (Some t))
             \<and> (\<forall>t. ae_symlink (m_header m) = Some t \<and> t \<noteq> [] \<and> hd t \<noteq> CHR 0x00
                    \<longrightarrow> isPathSafe (Some t))"
    using sok sal unfolding entry_safe_fields by simp
  have v1: "\<not> isPathSafe (Some (ae_pathname (m_header evil)))
           \<or> (\<exists>t. ae_hardlink (m_header evil) = Some t \<and> t \<noteq> [] \<and> hd t \<noteq> CHR 0x00
                  \<and> \<not> isPathSafe (Some t))
           \<or> (\<exists>t. ae_symlink (m_header evil) = Some t \<and> t \<noteq> [] \<and> hd t \<noteq> CHR 0x00
                  \<and> \<not> isPathSafe (Some t))"
    using p_evil by (simp add: evil_def file_member_def)
  have v2: "\<not> isPathSafe (Some (ae_pathname (m_header shadow)))
           \<or> (\<exists>t. ae_hardlink (m_header shadow) = Some t \<and> t \<noteq> [] \<and> hd t \<noteq> CHR 0x00
                  \<and> \<not> isPathSafe (Some t))
           \<or> (\<exists>t. ae_symlink (m_header shadow) = Some t \<and> t \<noteq> [] \<and> hd t \<noteq> CHR 0x00
                  \<and> \<not> isPathSafe (Some t))"
    using t_shadow by (simp add: f_shadow)
  have v3: "\<not> isPathSafe (Some (ae_pathname (m_header passwd)))
           \<or> (\<exists>t. ae_hardlink (m_header passwd) = Some t \<and> t \<noteq> [] \<and> hd t \<noteq> CHR 0x00
                  \<and> \<not> isPathSafe (Some t))
           \<or> (\<exists>t. ae_symlink (m_header passwd) = Some t \<and> t \<noteq> [] \<and> hd t \<noteq> CHR 0x00
                  \<and> \<not> isPathSafe (Some t))"
    using t_passwd by (simp add: f_passwd)
  have r1: "\<exists>s2 msg. QoreTarFile_extractAll (sample_provider_of [ok, evil, later])
              (Some ''out'') None s
            = (s2, [(''TAR-SECURITY-ERROR'', msg)],
               init @ [h_ok, DiskBlock 0 [1, 2], DiskFinishEntry, DiskClose])"
    using extractAll_aborts_on_unsafe [OF co ro ra1
        dn dh pre1 v1 st_def lp1]
    by auto
  have r2: "\<exists>s2 msg. QoreTarFile_extractAll (sample_provider_of [ok, lnk, shadow, later])
              (Some ''out'') None s
            = (s2, [(''TAR-SECURITY-ERROR'', msg)],
               init @ [h_ok, DiskBlock 0 [1, 2], DiskFinishEntry, h_alias, DiskFinishEntry,
                       DiskClose])"
    using extractAll_aborts_on_unsafe [OF co ro ra2
        dn dh pre2 v2 st_def lp2]
    by auto
  have r3: "\<exists>s2 msg. QoreTarFile_extractAll (sample_provider_of [passwd, later])
              (Some ''out'') None s
            = (s2, [(''TAR-SECURITY-ERROR'', msg)], init @ [DiskClose])"
    using extractAll_aborts_on_unsafe [OF co ro ra3
        dn dh pre0 v3 st_def lp0]
    by auto
  from r1 r2 r3 p_evil p_shadow t_shadow p_passwd t_passwd f_shadow f_passwd
  show ?thesis
    unfolding s_def ok_def [symmetric] lnk_def [symmetric] evil_def [symmetric]
      shadow_def [symmetric] passwd_def [symmetric] later_def [symmetric]
      init_def h_ok_def h_alias_def
    by simp
qed
section \<open>The records of enumeration and lookup\<close>

lemma entries_loop_all:
  "entries_loop (reader_of ms) list
     = (reader_of [], list @ map (\<lambda>m. createEntryInfo (m_header m)) ms)"
proof (induction ms arbitrary: list)
  case Nil
  show ?case by (subst entries_loop.simps) (simp add: next_header_Nil)
next
  case (Cons m ms)
  have "entries_loop (reader_of (m # ms)) list
          = entries_loop (reader_of ms) (list @ [createEntryInfo (m_header m)])"
    by (subst entries_loop.simps) (simp add: next_header_Cons data_skip_reader)
  with Cons [of "list @ [createEntryInfo (m_header m)]"] show ?case by simp
qed

lemma getEntry_loop_find:
  "\<exists>a. getEntry_loop (reader_of ms) name
         = (a, map_option (\<lambda>m. createEntryInfo (m_header m))
                 (find (\<lambda>m. c_str (ae_pathname (m_header m)) = c_str name) ms))"
proof (induction ms)
  case Nil
  show ?case by (subst getEntry_loop.simps) (simp add: next_header_Nil)
next
  case (Cons m ms)
  show ?case
  proof (cases "c_str (ae_pathname (m_header m)) = c_str name")
    case True
    then show ?thesis
      by (subst getEntry_loop.simps)
        (simp add: next_header_Cons entryNameEquals_def strcmp_eq_def)
  next
    case False
    then have "getEntry_loop (reader_of (m # ms)) name = getEntry_loop (reader_of ms) name"
      by (subst getEntry_loop.simps)
        (simp add: next_header_Cons data_skip_reader entryNameEquals_def strcmp_eq_def)
    with Cons False show ?thesis by simp
  qed
qed

lemma entries_with_reader:
  assumes "checkOpen s False = None" "reopenRead P s = (s1, [])"
      and "tf_read_archive s1 = Some (reader_of ms)"
  shows "QoreTarFile_entries P s
           = (s1\<lparr> tf_read_archive := Some (reader_of []) \<rparr>, [],
              Some (map (\<lambda>m. createEntryInfo (m_header m)) ms))"
  using assms by (simp add: QoreTarFile_entries_def entries_loop_all)

lemma getEntry_with_reader:
  assumes "checkOpen s False = None" "reopenRead P s = (s1, [])"
      and "tf_read_archive s1 = Some (reader_of ms)"
  shows "\<exists>s2. QoreTarFile_getEntry P name s
           = (s2, [], map_option (\<lambda>m. createEntryInfo (m_header m))
                        (find (\<lambda>m. c_str (ae_pathname (m_header m)) = c_str name) ms))"
proof -
  from getEntry_loop_find [of ms name] obtain a where
    "getEntry_loop (reader_of ms) name
         = (a, map_option (\<lambda>m. createEntryInfo (m_header m))
                 (find (\<lambda>m. c_str (ae_pathname (m_header m)) = c_str name) ms))" ..
  with assms show ?thesis by (simp add: QoreTarFile_getEntry_def)
qed

text \<open>
  Claim C4.  In the metadata record built from an entry, a hardlink target that is present
  and not empty makes the type \<open>hardlink\<close> whatever the file type flag is; with no hardlink
  target, or an empty one, the type is a function of the file type flag alone: file,
  directory, symlink, chardev, blockdev, fifo, socket, and unknown for every other flag.
  Enumeration and lookup return these records: on a session that passes \<open>checkOpen\<close> and
  rewinds, \<open>entries\<close> returns the record of every member in order, and \<open>getEntry\<close> the record
  of the first member whose path equals the name, or nothing.
\<close>

theorem createEntryInfo_type:
  "(ae_hardlink e = Some t \<and> t \<noteq> [] \<and> CHR 0x00 \<notin> set t
      \<longrightarrow> i_type (createEntryInfo e) = ''hardlink'')
   \<and> (ae_hardlink e = None \<or> ae_hardlink e = Some []
      \<longrightarrow> i_type (createEntryInfo e) = filetype_str (ae_filetype e))
   \<and> filetype_str AE_IFREG = ''file'' \<and> filetype_str AE_IFDIR = ''directory''
   \<and> filetype_str AE_IFLNK = ''symlink'' \<and> filetype_str AE_IFCHR = ''chardev''
   \<and> filetype_str AE_IFBLK = ''blockdev'' \<and> filetype_str AE_IFIFO = ''fifo''
   \<and> filetype_str AE_IFSOCK = ''socket''
   \<and> (ft \<notin> {AE_IFREG, AE_IFDIR, AE_IFLNK, AE_IFCHR, AE_IFBLK, AE_IFIFO, AE_IFSOCK}
      \<longrightarrow> filetype_str ft = ''unknown'')
   \<and> (checkOpen s False = None \<and> reopenRead P s = (s1, [])
        \<and> tf_read_archive s1 = Some (reader_of ms)
      \<longrightarrow> (\<exists>s2. QoreTarFile_entries P s
                    = (s2, [], Some (map (\<lambda>m. createEntryInfo (m_header m)) ms)))
          \<and> (\<exists>s2. QoreTarFile_getEntry P name s
                    = (s2, [], map_option (\<lambda>m. createEntryInfo (m_header m))
                                 (find (\<lambda>m. c_str (ae_pathname (m_header m)) = c_str name) ms))))"
proof -
  have h: "ae_hardlink e = Some t \<and> t \<noteq> [] \<and> CHR 0x00 \<notin> set t
      \<longrightarrow> i_type (createEntryInfo e) = ''hardlink''"
    using nonempty_target_Some [of t] by (auto simp: createEntryInfo_def Let_def)
  have n: "ae_hardlink e = None \<or> ae_hardlink e = Some []
      \<longrightarrow> i_type (createEntryInfo e) = filetype_str (ae_filetype e)"
    using nonempty_target_empty by (auto simp: createEntryInfo_def Let_def)
  have u: "ft \<notin> {AE_IFREG, AE_IFDIR, AE_IFLNK, AE_IFCHR, AE_IFBLK, AE_IFIFO, AE_IFSOCK}
      \<longrightarrow> filetype_str ft = ''unknown''"
    using filetype_str_unknown [of ft] by blast
  have q: "checkOpen s False = None \<and> reopenRead P s = (s1, [])
        \<and> tf_read_archive s1 = Some (reader_of ms)
      \<longrightarrow> (\<exists>s2. QoreTarFile_entries P s
                    = (s2, [], Some (map (\<lambda>m. createEntryInfo (m_header m)) ms)))
          \<and> (\<exists>s2. QoreTarFile_getEntry P name s
                    = (s2, [], map_option (\<lambda>m. createEntryInfo (m_header m))
                                 (find (\<lambda>m. c_str (ae_pathname (m_header m)) = c_str name) ms)))"
    using entries_with_reader [of s P s1 ms] getEntry_with_reader [of s P s1 ms name] by blast
  from h n filetype_str_values u q show ?thesis by (intro conjI)
qed

theorem createEntryInfo_type_witness:
  "i_type (createEntryInfo (sample_entry\<lparr>ae_hardlink := Some ''a/file''\<rparr>)) = ''hardlink''
   \<and> i_type (createEntryInfo sample_entry) = ''file''
   \<and> i_type (createEntryInfo (sample_entry\<lparr>ae_hardlink := Some [], ae_filetype := AE_IFDIR\<rparr>)) = ''directory''
   \<and> filetype_str 0 = ''unknown''
   \<and> (\<exists>s2 info.
        QoreTarFile_entries
          (sample_provider_of [\<lparr> m_header = sample_entry\<lparr>ae_hardlink := Some ''a/file''\<rparr>,
                                  m_data = [], m_fault = None, m_blocks = [] \<rparr>])
          (memory_read_session [1] []) = (s2, [], Some [info])
        \<and> i_type info = ''hardlink'' \<and> i_name info = ''a/link'')
   \<and> (\<exists>s2 info.
        QoreTarFile_getEntry
          (sample_provider_of [\<lparr> m_header = sample_entry\<lparr>ae_hardlink := Some ''a/file''\<rparr>,
                                  m_data = [], m_fault = None, m_blocks = [] \<rparr>])
          ''a/link'' (memory_read_session [1] []) = (s2, [], Some info)
        \<and> i_type info = ''hardlink'')"
proof -
  define hl where "hl = sample_entry\<lparr>ae_hardlink := Some ''a/file''\<rparr>"
  define ms where "ms = [\<lparr> m_header = hl, m_data = [], m_fault = None, m_blocks = [] \<rparr>]"
  define P where "P = sample_provider_of ms"
  define s where "s = memory_read_session [1] []"
  define s1 where "s1 = (memory_read_session [1] ms)\<lparr> tf_read_serial := 1 \<rparr>"
  have co: "checkOpen s False = None"
    by (simp add: s_def checkOpen_def memory_read_session_def)
  have ro: "reopenRead P s = (s1, [])"
    by (simp add: P_def s_def s1_def reopenRead_def openRead_def sample_provider_of_def
        memory_read_session_def)
  have ra: "tf_read_archive s1 = Some (reader_of ms)"
    by (simp add: s1_def memory_read_session_def)
  have hh: "ae_hardlink hl = Some ''a/file''" "ae_pathname hl = ''a/link''"
    by (simp_all add: hl_def sample_entry_def)
  have nm: "c_str ''a/link'' = ''a/link''" by (simp add: c_str_def)
  note th = createEntryInfo_type [of hl "''a/file''" 0 s P s1 ms "''a/link''"]
  from th hh have t1: "i_type (createEntryInfo hl) = ''hardlink''" by simp
  have t5: "i_name (createEntryInfo hl) = ''a/link''"
    by (simp add: createEntryInfo_def Let_def hh)
  from th have t4: "filetype_str 0 = ''unknown''"
    by (simp add: AE_IFREG_def AE_IFDIR_def AE_IFLNK_def AE_IFCHR_def
      AE_IFBLK_def AE_IFIFO_def AE_IFSOCK_def)
  have t2: "i_type (createEntryInfo sample_entry) = ''file''"
    using createEntryInfo_type [of sample_entry "[]" 0 s P s1 ms "''a/link''"]
    by (simp add: sample_entry_def)
  have t3: "i_type (createEntryInfo (sample_entry\<lparr>ae_hardlink := Some [], ae_filetype := AE_IFDIR\<rparr>))
              = ''directory''"
    using createEntryInfo_type [of "sample_entry\<lparr>ae_hardlink := Some [], ae_filetype := AE_IFDIR\<rparr>"
        "[]" 0 s P s1 ms "''a/link''"]
    by simp
  from th co ro ra have
    e: "\<exists>s2. QoreTarFile_entries P s = (s2, [], Some [createEntryInfo hl])"
    and g: "\<exists>s2. QoreTarFile_getEntry P ''a/link'' s = (s2, [], Some (createEntryInfo hl))"
    by (simp_all add: ms_def hh nm)
  from e t1 t5 have e': "\<exists>s2 info. QoreTarFile_entries P s = (s2, [], Some [info])
        \<and> i_type info = ''hardlink'' \<and> i_name info = ''a/link''" by blast
  from g t1 have g': "\<exists>s2 info. QoreTarFile_getEntry P ''a/link'' s = (s2, [], Some info)
        \<and> i_type info = ''hardlink''" by blast
  from t1 t2 t3 t4 e' g' show ?thesis
    unfolding P_def s_def ms_def hl_def by (intro conjI)
qed


section \<open>Properties of the adapters handed out by a session\<close>

text \<open>\<open>write\<close> on an adapter leaves the coder behind its pointer alone, whichever it is.\<close>

lemma ostream_write_any_coder:
  "TarOutputStream_write (ostream_on w h) ptr count
     = (ostream_on w (fst (ostream_write h ptr count)), snd (ostream_write h ptr count))"
  by (simp add: ostream_write_def TarOutputStream_write_def ostream_on_def ostream_handle_of_def
      Let_def)

text \<open>
  An adapter that \<open>openOutputStream\<close> has handed out writes, when it is closed, to the write
  coder that the session holds then, entries added through the session meanwhile included;
  the session keeps the coder with the adapter's calls.
\<close>

lemma ostream_close_shares_coder:
  assumes "tf_write_archive s = Some w" and "\<not> oh_closed h"
      and "TarOutputStream_close P (ostream_on w h) = (os, xs)"
  shows "\<exists>s1. ostream_close P s h = Some (s1, ostream_handle_of os, xs)
              \<and> tf_write_archive s1 = Some (os_archive os)
              \<and> tf_memory_buffer s1
                  = tf_memory_buffer s
                    @ (if tf_in_memory s
                       then drop (length (w_pushed w)) (w_pushed (os_archive os)) else [])"
  using assms by (simp add: ostream_close_def push_backend_def)

text \<open>
  Once the session is closed, its write coder is freed: closing an adapter that is still
  open would follow a dangling pointer.
\<close>

lemma ostream_close_after_session_close:
  assumes "\<not> tf_closed s" and "\<not> oh_closed h"
  shows "ostream_close P (fst (QoreTarFile_close P s)) h = None"
  using assms
  by (simp add: ostream_close_def QoreTarFile_close_def close_writer_def push_backend_def
      split: option.splits)

text \<open>
  A rewind of the session frees the read coder that an adapter handed out before points
  to: the adapter's pointer dangles afterwards.
\<close>

lemma istream_dangles_after_rewind:
  assumes "ih_archive h = tf_read_serial s" and "p_read_new P"
  shows "istream_coder (fst (reopenRead P s)) h = None"
  using assms
  by (simp add: istream_coder_def reopenRead_def openRead_def Let_def split: sum.splits)

lemma istream_dangles_after_close:
  assumes "\<not> tf_closed s"
  shows "istream_coder (fst (QoreTarFile_close P s)) h = None"
  using assms
  by (simp add: istream_coder_def QoreTarFile_close_def close_writer_def push_backend_def
      split: option.splits)

text \<open>
  The adapter that \<open>openInputStream\<close> hands out points to the read coder that the session
  holds when the call returns, positioned on the payload of the entry.
\<close>

lemma openInputStream_shares_coder:
  assumes "QoreTarFile_openInputStream P name s = (s1, xs, Some h)"
  shows "istream_coder s1 h = tf_read_archive s1 \<and> tf_read_archive s1 \<noteq> None"
  using assms
  by (auto simp: QoreTarFile_openInputStream_def istream_coder_def istream_handle_of_def
      split: option.splits prod.splits if_splits)
end
